theory Spec2Isabelle
  imports Main "HOL-Library.Sublist" "HOL-Library.AList"
begin

section \<open>IAM token exchange client (provider/iam/token\_exchange.go)\<close>

text \<open>
  A shallow embedding of the token exchange client. Go strings are \<open>string\<close> (byte
  lists), Go's \<open>int\<close> is \<open>int\<close> (the values are only copied, never computed with), a
  pointer that the code tests against \<open>nil\<close> is an \<open>option\<close>, a \<open>(value, error)\<close> return
  pair is a pair of options, and a nil-pointer dereference is the outcome \<open>Panic\<close>.
  The configuration, the HTTP client and the logger of a service are pointers that the
  code never tests: they are taken to be there.
  Everything the client does to its environment (calls of the HTTP client, sleeping,
  logging) is recorded in an explicit \<open>world\<close> that every operation returns updated.
\<close>

subsection \<open>Errors\<close>

text \<open>
  A Go \<open>error\<close> value. \<open>PlainError s\<close> is an error made by \<open>errors.New(s)\<close>, and any
  error of another package (the transport's), whose \<open>Error()\<close> text is \<open>s\<close>.
  \<open>ProviderError\<close> is the classified error of lib/utils: a reason code, a message, and
  the texts of the errors it wraps.
\<close>

datatype error =
    PlainError string
  | ProviderError (ReasonCode: string) (Message: string) (Wrapped: "string list")

text \<open>The \<open>Error()\<close> method: the text an error renders to.\<close>

fun ErrorString :: "error \<Rightarrow> string" where
  "ErrorString (PlainError s) = s"
| "ErrorString (ProviderError code msg werrs) = msg"

text \<open>
  Modelled from the spec: \<open>util.ErrorDeepUnwrapString\<close> of lib/utils, which is not among
  the sources. The spec: the error is unwrapped into its chain of underlying causes, each
  rendered as text. An error that is not a classified one has no recorded causes.
\<close>

fun ErrorDeepUnwrapString :: "error \<Rightarrow> string list" where
  "ErrorDeepUnwrapString (PlainError s) = []"
| "ErrorDeepUnwrapString (ProviderError code msg werrs) = werrs"

text \<open>
  Modelled from the spec: \<open>util.NewError(code, msg, wrapped...)\<close> of lib/utils, which is
  not among the sources. The spec: a classified error of the given kind that wraps the
  underlying errors; its chain of causes holds, for each wrapped error in order, that
  error's text followed by that error's own chain.
\<close>

definition NewError :: "string \<Rightarrow> string \<Rightarrow> error list \<Rightarrow> error" where
  "NewError code msg wrapped =
     ProviderError code msg
       (concat (map (\<lambda>w. ErrorString w # ErrorDeepUnwrapString w) wrapped))"

subsection \<open>Connection-error classification\<close>

text \<open>
  \<open>strings.Contains(s, substr)\<close> of the Go standard library: \<open>substr\<close> occurs in \<open>s\<close> at
  some position. Searched from the left, position by position.
\<close>

fun Contains :: "string \<Rightarrow> string \<Rightarrow> bool" where
  "Contains [] substr = (substr = [])"
| "Contains (c # s) substr = (prefix substr (c # s) \<or> Contains s substr)"

text \<open>The \<open>for\<close> loop of \<open>IsConnectionError\<close>: return at the first text that holds "tcp".\<close>

fun anyTcp :: "string list \<Rightarrow> bool" where
  "anyTcp [] = False"
| "anyTcp (werr # wrappedErrors) =
     (if Contains werr ''tcp'' then True else anyTcp wrappedErrors)"

definition IsConnectionError :: "error option \<Rightarrow> bool" where
  "IsConnectionError err =
     (case err of
        None \<Rightarrow> False
      | Some e \<Rightarrow> anyTcp (ErrorDeepUnwrapString e))"

subsection \<open>Base64\<close>

text \<open>
  \<open>base64.StdEncoding.EncodeToString\<close> of the Go standard library (RFC 4648, with
  padding): three bytes become four characters of the alphabet.
\<close>

definition encodeStd :: string where
  "encodeStd = ''ABCDEFGHIJKLMNOPQRSTUVWXYZabcdefghijklmnopqrstuvwxyz0123456789+/''"

fun EncodeToString :: "string \<Rightarrow> string" where
  "EncodeToString (a # b # c # src) =
     (let v = (of_char a :: nat) * 65536 + of_char b * 256 + of_char c
      in [encodeStd ! (v div 262144), encodeStd ! (v div 4096 mod 64),
          encodeStd ! (v div 64 mod 64), encodeStd ! (v mod 64)] @ EncodeToString src)"
| "EncodeToString [a, b] =
     (let v = (of_char a :: nat) * 65536 + of_char b * 256
      in [encodeStd ! (v div 262144), encodeStd ! (v div 4096 mod 64),
          encodeStd ! (v div 64 mod 64), CHR ''=''])"
| "EncodeToString [a] =
     (let v = (of_char a :: nat) * 65536
      in [encodeStd ! (v div 262144), encodeStd ! (v div 4096 mod 64),
          CHR ''='', CHR ''=''])"
| "EncodeToString [] = []"

subsection \<open>Data model\<close>

record AuthConfiguration =
  IamURL :: string
  IamClientID :: string
  IamClientSecret :: string

text \<open>
  Modelled from the spec: the token types \<open>AccessToken\<close> and \<open>IMSToken\<close> are declared in
  another file of the package. The spec: AccessToken is \<open>{token string}\<close>, IMSToken is
  \<open>{user ID (integer), token string}\<close>. The constructors are written
  \<open>AccessToken.AccessToken\<close> and \<open>IMSToken.IMSToken\<close>: the plain name \<open>AccessToken\<close> is the
  field of the response body declared next.
\<close>

datatype AccessToken = AccessToken (Token: string)

datatype IMSToken = IMSToken (UserID: int) (Token: string)

text \<open>The success shape of the response body, as decoded from JSON.\<close>

record tokenExchangeResponse =
  AccessToken :: string
  ImsToken :: string
  ImsUserID :: int

text \<open>
  The error shape of the response body: the anonymous struct \<open>errorV\<close> of
  \<open>sendTokenExchangeRequest\<close> and its nested \<open>Requirements\<close>.
\<close>

record requirements =
  Error :: string
  Code :: string

record errorBody =
  ErrorMessage :: string
  ErrorType :: string
  ErrorDetails :: string
  Requirements :: requirements

text \<open>
  Modelled from the spec: \<open>rest.Request\<close> of the vendored REST client, which is not among
  the sources. The spec: an exchange request is a target URL, form fields, and headers.
  \<open>PostRequest\<close> starts a POST to a URL, \<open>Field\<close> adds a form field after those already
  there, \<open>Set\<close> sets a header, replacing the value the header had.
\<close>

record Request =
  httpMethod :: string
  rawUrl :: string
  header :: "(string \<times> string) list"
  formParams :: "(string \<times> string) list"

definition PostRequest :: "string \<Rightarrow> Request" where
  "PostRequest url = \<lparr>httpMethod = ''POST'', rawUrl = url, header = [], formParams = []\<rparr>"

definition Field :: "string \<Rightarrow> string \<Rightarrow> Request \<Rightarrow> Request" where
  "Field key v rq = rq\<lparr>formParams := formParams rq @ [(key, v)]\<rparr>"

definition SetHeader :: "string \<Rightarrow> string \<Rightarrow> Request \<Rightarrow> Request" where
  "SetHeader key v rq = rq\<lparr>header := AList.update key v (header rq)\<rparr>"

text \<open>\<open>http.Response\<close>: the code reads its status code only.\<close>

record Response =
  StatusCode :: int

text \<open>
  What one call \<open>r.client.Do(r.request, &successV, &errorV)\<close> leaves behind: the returned
  pair \<open>(resp, err)\<close>, either of which may be nil, and the two structs it decodes the body
  into. The HTTP client and the JSON decoding are outside the sources, so the model
  takes this outcome from a \<open>transport\<close>: the outcome of the client's k-th call, for
  the request it is given. The theorems hold for every transport; the one hypothesis made
  on it, where a panic matters, is that a call returns a response or an error.
\<close>

record doResult =
  resp :: "Response option"
  doErr :: "error option"
  successV :: tokenExchangeResponse
  errorV :: errorBody

type_synonym transport = "nat \<Rightarrow> Request \<Rightarrow> doResult"

text \<open>The structured logger: a level, a message and typed fields.\<close>

datatype level = DebugLevel | InfoLevel | ErrorLevel

datatype field =
    ZapInt string int
  | ZapString string string
  | ZapError error
  | ZapReflectRequest string Request
  | ZapReflectResponse string "Response option"
  | ZapReflectErrorV string errorBody

text \<open>
  The environment: how many times the HTTP client has been called, the requests it was
  given (oldest first), the total time spent in \<open>time.Sleep\<close> (nanoseconds), and the log.
\<close>

record world =
  calls :: nat
  sent :: "Request list"
  slept :: int
  logged :: "(level \<times> string \<times> field list) list"

definition Log :: "level \<Rightarrow> string \<Rightarrow> field list \<Rightarrow> world \<Rightarrow> world" where
  "Log lvl msg fs w = w\<lparr>logged := logged w @ [(lvl, msg, fs)]\<rparr>"

text \<open>The outcome of running Go code: it returns, or it panics (a nil dereference).\<close>

datatype 'a go = Panic | Return 'a

record ErrorRetrier =
  MaxAttempts :: int
  RetryInterval :: int

record tokenExchangeService =
  authConfig :: AuthConfiguration
  httpClient :: transport

record tokenExchangeRequest =
  tes :: tokenExchangeService
  request :: Request
  client :: transport
  errorRetrier :: ErrorRetrier

subsection \<open>Operations\<close>

definition Second :: int where
  "Second = 1000000000"

text \<open>
  Modelled from the spec: \<open>util.NewErrorRetrier\<close> and \<open>ErrorRetry\<close> of lib/utils, which are
  not among the sources. The spec: a generic bounded-retry executor (attempts count, fixed
  interval, predicate-driven early stop); the function is attempted up to the attempts
  count, with the fixed interval slept between two attempts; an attempt that reports
  "stop", or that returns no error, ends the loop at once; exhausting the attempts
  surfaces the last encountered error. The function to retry returns its error and the
  "stop" flag; \<open>'s\<close> is the state of the variables it captures. A panic of the function
  ends the loop.
\<close>

definition NewErrorRetrier :: "int \<Rightarrow> int \<Rightarrow> ErrorRetrier" where
  "NewErrorRetrier maxAttempt retryInterval =
     \<lparr>MaxAttempts = maxAttempt, RetryInterval = retryInterval\<rparr>"

function ErrorRetry_loop ::
  "ErrorRetrier \<Rightarrow> ('s \<Rightarrow> world \<Rightarrow> (error option \<times> bool) go \<times> 's \<times> world) \<Rightarrow>
   int \<Rightarrow> 's \<Rightarrow> world \<Rightarrow> (error option) go \<times> 's \<times> world" where
  "ErrorRetry_loop er funcToRetry i s w =
     (case funcToRetry s w of
        (Panic, s', w') \<Rightarrow> (Panic, s', w')
      | (Return (err, shouldStop), s', w') \<Rightarrow>
          if shouldStop then (Return err, s', w')
          else if err = None then (Return None, s', w')
          else if i \<ge> MaxAttempts er - 1 then (Return err, s', w')
          else ErrorRetry_loop er funcToRetry (i + 1) s'
                 (w'\<lparr>slept := slept w' + RetryInterval er\<rparr>))"
  by pat_completeness auto
termination
  by (relation "measure (\<lambda>(er, f, i, s, w). nat (MaxAttempts er - 1 - i))") auto

declare ErrorRetry_loop.simps [simp del]

definition ErrorRetry ::
  "ErrorRetrier \<Rightarrow> ('s \<Rightarrow> world \<Rightarrow> (error option \<times> bool) go \<times> 's \<times> world) \<Rightarrow>
   's \<Rightarrow> world \<Rightarrow> (error option) go \<times> 's \<times> world" where
  "ErrorRetry er funcToRetry s w = ErrorRetry_loop er funcToRetry 0 s w"

text \<open>
  \<open>newTokenExchangeRequest\<close>: a POST to \<open>{IamURL}/oidc/token\<close> through the service's HTTP
  client, and a retrier of 40 attempts, 3 seconds apart.
\<close>

definition newTokenExchangeRequest :: "tokenExchangeService \<Rightarrow> tokenExchangeRequest" where
  "newTokenExchangeRequest t =
     (let retyrInterval = 3 * Second
      in \<lparr>tes = t,
          request = PostRequest (IamURL (authConfig t) @ ''/oidc/token''),
          client = httpClient t,
          errorRetrier = NewErrorRetrier 40 retyrInterval\<rparr>)"

text \<open>
  \<open>sendTokenExchangeRequest\<close>, one attempt, in the three steps of its body.

  Lines 183-186: the two headers are set on the request of \<open>r\<close>.
\<close>

definition setHeaders :: "tokenExchangeRequest \<Rightarrow> tokenExchangeRequest" where
  "setHeaders r0 =
     (let basicAuth = IamClientID (authConfig (tes r0)) @ '':'' @
                      IamClientSecret (authConfig (tes r0));
          r1 = r0\<lparr>request :=
                 SetHeader ''Authorization'' (''Basic '' @ EncodeToString basicAuth) (request r0)\<rparr>
      in r1\<lparr>request := SetHeader ''Accept'' ''application/json'' (request r1)\<rparr>)"

text \<open>
  Lines 200-202: two log lines, then the call of the client, which is its next call in
  the world and is given the request of \<open>r\<close>.
\<close>

definition doRequest :: "tokenExchangeRequest \<Rightarrow> world \<Rightarrow> doResult \<times> world" where
  "doRequest r w0 =
     (let w1 = Log InfoLevel ''Sending IAM token exchange request'' [] w0;
          w2 = Log InfoLevel ''Request is:=================''
                 [ZapReflectRequest ''Request'' (request r)] w1
      in (client r (calls w2) (request r),
          w2\<lparr>calls := calls w2 + 1, sent := sent w2 @ [request r]\<rparr>))"

text \<open>
  Lines 204-247: what is returned, and logged, for the outcome \<open>d\<close> of the call. With no
  error and no response, \<open>resp.Body\<close> of line 219 dereferences nil. The deferred closing
  of the body changes nothing that is returned or logged, and is left out.
\<close>

definition classify ::
  "doResult \<Rightarrow> world \<Rightarrow> (tokenExchangeResponse option \<times> error option) go \<times> world" where
  "classify d w =
     (case doErr d of
        Some err \<Rightarrow>
          (Return (None, Some (NewError ''ErrorUnclassified''
                                 ''IAM token exchange request failed'' [err])),
           Log ErrorLevel ''IAM token exchange request failed''
             [ZapReflectResponse ''Response'' (resp d), ZapError err] w)
      | None \<Rightarrow>
          if (case resp d of None \<Rightarrow> False | Some rs \<Rightarrow> StatusCode rs = 200) then
            (Return (Some (successV d), None),
             Log DebugLevel ''IAM token exchange request successful'' [] w)
          else
            (case resp d of
               None \<Rightarrow> (Panic, w)
             | Some rs \<Rightarrow>
                 if ErrorMessage (errorV d) \<noteq> [] then
                   (let w' = Log ErrorLevel ''IAM token exchange request failed with message''
                               [ZapInt ''StatusCode'' (StatusCode rs),
                                ZapString ''ErrorMessage:'' (ErrorMessage (errorV d)),
                                ZapString ''ErrorType:'' (ErrorType (errorV d)),
                                ZapReflectErrorV ''Error'' (errorV d)] w;
                        err = NewError ''ErrorFailedTokenExchange''
                                (''IAM token exchange request failed: '' @
                                 ErrorMessage (errorV d))
                                [PlainError (ErrorDetails (errorV d) @ '' '' @
                                   Code (Requirements (errorV d)) @ '': '' @
                                   Error (Requirements (errorV d)))];
                        err' = (if Code (Requirements (errorV d)) =
                                   ''SoftLayer_Exception_User_Customer_AccountLocked''
                                then NewError ''ErrorProviderAccountTemporarilyLocked''
                                       ''Infrastructure account is temporarily locked'' [err]
                                else err)
                    in (Return (None, Some err'), w'))
                 else
                   (Return (None, Some (NewError ''ErrorUnclassified''
                                          ''Unexpected IAM token exchange response'' [])),
                    Log ErrorLevel ''Unexpected IAM token exchange response''
                      [ZapInt ''StatusCode'' (StatusCode rs),
                       ZapReflectResponse ''Response'' (Some rs)] w)))"

text \<open>
  The whole attempt. It returns the pair \<open>(*tokenExchangeResponse, error)\<close>, the request
  \<open>r\<close> as it leaves it, and the world.
\<close>

definition sendTokenExchangeRequest ::
  "tokenExchangeRequest \<Rightarrow> world \<Rightarrow>
   (tokenExchangeResponse option \<times> error option) go \<times> tokenExchangeRequest \<times> world" where
  "sendTokenExchangeRequest r0 w0 =
     (let r = setHeaders r0;
          (d, w) = doRequest r w0;
          (res, w') = classify d w
      in (res, r, w'))"

text \<open>
  The function literal that \<open>exchangeForAccessToken\<close> and \<open>exchangeForIMSToken\<close> both hand
  to the retrier (lines 133-136 and 147-150). It captures \<open>r\<close> and the two local variables
  \<open>iamResp\<close> and \<open>err\<close>, assigns them, and asks to stop unless the error is a connection
  error.
\<close>

type_synonym captured =
  "tokenExchangeRequest \<times> tokenExchangeResponse option \<times> error option"

definition retryFunc ::
  "captured \<Rightarrow> world \<Rightarrow> (error option \<times> bool) go \<times> captured \<times> world" where
  "retryFunc s w =
     (case s of (r, iamResp, err) \<Rightarrow>
        (case sendTokenExchangeRequest r w of
           (Panic, r', w') \<Rightarrow> (Panic, (r', iamResp, err), w')
         | (Return (iamResp', err'), r', w') \<Rightarrow>
             (Return (err', \<not> IsConnectionError err'), (r', iamResp', err'), w')))"

text \<open>
  After the retrier: an error is returned alone; with no error, the token is read out of
  \<open>iamResp\<close>, a nil dereference if \<open>iamResp\<close> were nil.
\<close>

definition exchangeForAccessToken ::
  "tokenExchangeRequest \<Rightarrow> world \<Rightarrow> (AccessToken option \<times> error option) go \<times> world" where
  "exchangeForAccessToken r w =
     (case ErrorRetry (errorRetrier r) retryFunc (r, None, None) w of
        (Panic, s', w') \<Rightarrow> (Panic, w')
      | (Return err, (r', iamResp, err0), w') \<Rightarrow>
          (case err of
             Some e \<Rightarrow> (Return (None, Some e), w')
           | None \<Rightarrow>
               (case iamResp of
                  None \<Rightarrow> (Panic, w')
                | Some v \<Rightarrow>
                    (Return (Some (AccessToken.AccessToken (AccessToken v)), None), w'))))"

definition exchangeForIMSToken ::
  "tokenExchangeRequest \<Rightarrow> world \<Rightarrow> (IMSToken option \<times> error option) go \<times> world" where
  "exchangeForIMSToken r w =
     (case ErrorRetry (errorRetrier r) retryFunc (r, None, None) w of
        (Panic, s', w') \<Rightarrow> (Panic, w')
      | (Return err, (r', iamResp, err0), w') \<Rightarrow>
          (case err of
             Some e \<Rightarrow> (Return (None, Some e), w')
           | None \<Rightarrow>
               (case iamResp of
                  None \<Rightarrow> (Panic, w')
                | Some v \<Rightarrow>
                    (Return (Some (IMSToken.IMSToken (ImsUserID v) (ImsToken v)), None), w'))))"

definition ExchangeRefreshTokenForAccessToken ::
  "tokenExchangeService \<Rightarrow> string \<Rightarrow> world \<Rightarrow>
   (AccessToken option \<times> error option) go \<times> world" where
  "ExchangeRefreshTokenForAccessToken t refreshToken w =
     (let r = newTokenExchangeRequest t;
          r = r\<lparr>request := Field ''grant_type'' ''refresh_token'' (request r)\<rparr>;
          r = r\<lparr>request := Field ''refresh_token'' refreshToken (request r)\<rparr>
      in exchangeForAccessToken r w)"

definition ExchangeAccessTokenForIMSToken ::
  "tokenExchangeService \<Rightarrow> AccessToken \<Rightarrow> world \<Rightarrow>
   (IMSToken option \<times> error option) go \<times> world" where
  "ExchangeAccessTokenForIMSToken t accessToken w =
     (let r = newTokenExchangeRequest t;
          r = r\<lparr>request :=
                Field ''grant_type'' ''urn:ibm:params:oauth:grant-type:derive'' (request r)\<rparr>;
          r = r\<lparr>request := Field ''response_type'' ''ims_portal'' (request r)\<rparr>;
          r = r\<lparr>request := Field ''access_token'' (AccessToken.Token accessToken) (request r)\<rparr>
      in exchangeForIMSToken r w)"

definition ExchangeIAMAPIKeyForIMSToken ::
  "tokenExchangeService \<Rightarrow> string \<Rightarrow> world \<Rightarrow>
   (IMSToken option \<times> error option) go \<times> world" where
  "ExchangeIAMAPIKeyForIMSToken t iamAPIKey w =
     (let r = newTokenExchangeRequest t;
          r = r\<lparr>request :=
                Field ''grant_type'' ''urn:ibm:params:oauth:grant-type:apikey'' (request r)\<rparr>;
          r = r\<lparr>request := Field ''response_type'' ''ims_portal'' (request r)\<rparr>;
          r = r\<lparr>request := Field ''apikey'' iamAPIKey (request r)\<rparr>
      in exchangeForIMSToken r w)"

definition ExchangeIAMAPIKeyForAccessToken ::
  "tokenExchangeService \<Rightarrow> string \<Rightarrow> world \<Rightarrow>
   (AccessToken option \<times> error option) go \<times> world" where
  "ExchangeIAMAPIKeyForAccessToken t iamAPIKey w =
     (let r = newTokenExchangeRequest t;
          r = r\<lparr>request :=
                Field ''grant_type'' ''urn:ibm:params:oauth:grant-type:apikey'' (request r)\<rparr>;
          r = r\<lparr>request := Field ''apikey'' iamAPIKey (request r)\<rparr>
      in exchangeForAccessToken r w)"

text \<open>\<open>UpdateAPIKey\<close>: returns nil; it touches neither the service nor the world.\<close>

definition UpdateAPIKey ::
  "tokenExchangeService \<Rightarrow> string \<Rightarrow> world \<Rightarrow> error option \<times> tokenExchangeService \<times> world" where
  "UpdateAPIKey t apiKey w = (None, t, w)"

subsection \<open>Notions used by the statements\<close>

text \<open>
  The four public operations as one function of the invoked operation and its credential,
  so that a property of "every exchange operation" is stated once. A token of either type
  is a \<open>token\<close>.
\<close>

datatype exchange =
    RefreshTokenForAccessToken string
  | AccessTokenForIMSToken AccessToken
  | IAMAPIKeyForIMSToken string
  | IAMAPIKeyForAccessToken string

datatype token = IsAccessToken AccessToken | IsIMSToken IMSToken

definition asAccess ::
  "(AccessToken option \<times> error option) go \<times> world \<Rightarrow> (token option \<times> error option) go \<times> world" where
  "asAccess out = (map_go (\<lambda>(tok, err). (map_option IsAccessToken tok, err)) (fst out), snd out)"

definition asIMS ::
  "(IMSToken option \<times> error option) go \<times> world \<Rightarrow> (token option \<times> error option) go \<times> world" where
  "asIMS out = (map_go (\<lambda>(tok, err). (map_option IsIMSToken tok, err)) (fst out), snd out)"

fun Exchange ::
  "tokenExchangeService \<Rightarrow> exchange \<Rightarrow> world \<Rightarrow> (token option \<times> error option) go \<times> world" where
  "Exchange t (RefreshTokenForAccessToken refreshToken) w =
     asAccess (ExchangeRefreshTokenForAccessToken t refreshToken w)"
| "Exchange t (AccessTokenForIMSToken accessToken) w =
     asIMS (ExchangeAccessTokenForIMSToken t accessToken w)"
| "Exchange t (IAMAPIKeyForIMSToken iamAPIKey) w =
     asIMS (ExchangeIAMAPIKeyForIMSToken t iamAPIKey w)"
| "Exchange t (IAMAPIKeyForAccessToken iamAPIKey) w =
     asAccess (ExchangeIAMAPIKeyForAccessToken t iamAPIKey w)"

text \<open>
  The request of section 4.1 of the spec, written from the spec's words: a POST to
  \<open>{IamURL}/oidc/token\<close> with the headers \<open>Authorization: Basic base64(clientID:clientSecret)\<close>
  and \<open>Accept: application/json\<close>, and the form fields of the operation's row of the table.
\<close>

fun formFields :: "exchange \<Rightarrow> (string \<times> string) list" where
  "formFields (RefreshTokenForAccessToken refreshToken) =
     [(''grant_type'', ''refresh_token''), (''refresh_token'', refreshToken)]"
| "formFields (AccessTokenForIMSToken accessToken) =
     [(''grant_type'', ''urn:ibm:params:oauth:grant-type:derive''),
      (''response_type'', ''ims_portal''),
      (''access_token'', AccessToken.Token accessToken)]"
| "formFields (IAMAPIKeyForIMSToken iamAPIKey) =
     [(''grant_type'', ''urn:ibm:params:oauth:grant-type:apikey''),
      (''response_type'', ''ims_portal''),
      (''apikey'', iamAPIKey)]"
| "formFields (IAMAPIKeyForAccessToken iamAPIKey) =
     [(''grant_type'', ''urn:ibm:params:oauth:grant-type:apikey''),
      (''apikey'', iamAPIKey)]"

definition specRequest :: "AuthConfiguration \<Rightarrow> (string \<times> string) list \<Rightarrow> Request" where
  "specRequest cfg fs =
     \<lparr>httpMethod = ''POST'',
      rawUrl = IamURL cfg @ ''/oidc/token'',
      header = [(''Authorization'',
                 ''Basic '' @ EncodeToString (IamClientID cfg @ '':'' @ IamClientSecret cfg)),
                (''Accept'', ''application/json'')],
      formParams = fs\<rparr>"

text \<open>
  The token that the spec has the operation read out of a success body: an AccessToken of
  \<open>access_token\<close>, or an IMSToken of \<open>ims_user_id\<close> and \<open>ims_token\<close>.
\<close>

fun specToken :: "exchange \<Rightarrow> tokenExchangeResponse \<Rightarrow> token" where
  "specToken (RefreshTokenForAccessToken refreshToken) v =
     IsAccessToken (AccessToken.AccessToken (AccessToken v))"
| "specToken (AccessTokenForIMSToken accessToken) v =
     IsIMSToken (IMSToken.IMSToken (ImsUserID v) (ImsToken v))"
| "specToken (IAMAPIKeyForIMSToken iamAPIKey) v =
     IsIMSToken (IMSToken.IMSToken (ImsUserID v) (ImsToken v))"
| "specToken (IAMAPIKeyForAccessToken iamAPIKey) v =
     IsAccessToken (AccessToken.AccessToken (AccessToken v))"

text \<open>
  What one attempt returns for an outcome \<open>d\<close> of the client's call: the first component
  of \<open>classify\<close>, which does not depend on the world. \<open>retried\<close> is the retry condition of
  the function literal on it: the attempt returned a connection error.
\<close>

definition emptyWorld :: world where
  "emptyWorld = \<lparr>calls = 0, sent = [], slept = 0, logged = []\<rparr>"

definition verdict :: "doResult \<Rightarrow> (tokenExchangeResponse option \<times> error option) go" where
  "verdict d = fst (classify d emptyWorld)"

definition retried :: "(tokenExchangeResponse option \<times> error option) go \<Rightarrow> bool" where
  "retried out = (case out of Panic \<Rightarrow> False | Return (v, e) \<Rightarrow> IsConnectionError e)"

text \<open>
  The outcome of the client's k-th call when it is given the request that an attempt on
  \<open>r\<close> sends, and the outcome of its k-th call for the request of operation \<open>x\<close>.
\<close>

definition answer :: "tokenExchangeRequest \<Rightarrow> nat \<Rightarrow> doResult" where
  "answer r k = client r k (request (setHeaders r))"

definition reply :: "tokenExchangeService \<Rightarrow> exchange \<Rightarrow> nat \<Rightarrow> doResult" where
  "reply t x k = httpClient t k (specRequest (authConfig t) (formFields x))"

text \<open>The world that one attempt on \<open>r\<close> leaves.\<close>

definition worldAfter :: "tokenExchangeRequest \<Rightarrow> world \<Rightarrow> world" where
  "worldAfter r w = snd (snd (sendTokenExchangeRequest r w))"

text \<open>
  What a run of the retry loop from iteration \<open>i\<close> does, in terms of the number \<open>n\<close> of
  attempts it makes: the bound, the calls, the sleeps, the requests sent, which attempts
  were retried, and that the last attempt's error and result are what the loop returns.
\<close>

definition loopSpec ::
  "ErrorRetrier \<Rightarrow> int \<Rightarrow> tokenExchangeRequest \<Rightarrow> world \<Rightarrow>
   (error option) go \<times> captured \<times> world \<Rightarrow> nat \<Rightarrow> bool" where
  "loopSpec er i r w result n =
     (case result of (res, s', w') \<Rightarrow>
        1 \<le> n \<and> int n \<le> max 1 (MaxAttempts er - i) \<and>
        calls w' = calls w + n \<and>
        slept w' = slept w + (int n - 1) * RetryInterval er \<and>
        sent w' = sent w @ replicate n (request (setHeaders r)) \<and>
        (\<forall>j. Suc j < n \<longrightarrow> retried (verdict (answer r (calls w + j)))) \<and>
        (int n < MaxAttempts er - i \<longrightarrow> \<not> retried (verdict (answer r (calls w + n - 1)))) \<and>
        (case verdict (answer r (calls w + n - 1)) of
           Panic \<Rightarrow> res = Panic
         | Return (v, e) \<Rightarrow> res = Return e \<and> s' = (setHeaders r, v, e)))"

text \<open>
  What an exchange returns for the outcome \<open>d\<close> of the last call it made, \<open>mk\<close> being the
  token it builds of a success body; and what a whole exchange does, in terms of the
  number \<open>n\<close> of attempts it makes, \<open>rep\<close> being the client's outcomes and \<open>rq\<close> the request.
\<close>

definition surfaced ::
  "(tokenExchangeResponse \<Rightarrow> 'a) \<Rightarrow> doResult \<Rightarrow> ('a option \<times> error option) go" where
  "surfaced mk d =
     (case verdict d of
        Panic \<Rightarrow> Panic
      | Return (v, e) \<Rightarrow>
          (case e of
             Some e' \<Rightarrow> Return (None, Some e')
           | None \<Rightarrow> Return (Some (mk (successV d)), None)))"

definition runSpec ::
  "(nat \<Rightarrow> doResult) \<Rightarrow> Request \<Rightarrow> (tokenExchangeResponse \<Rightarrow> 'a) \<Rightarrow> world \<Rightarrow>
   ('a option \<times> error option) go \<times> world \<Rightarrow> nat \<Rightarrow> bool" where
  "runSpec rep rq mk w result n =
     (case result of (res, w') \<Rightarrow>
        1 \<le> n \<and> n \<le> 40 \<and>
        calls w' = calls w + n \<and>
        slept w' = slept w + (int n - 1) * (3 * Second) \<and>
        sent w' = sent w @ replicate n rq \<and>
        (\<forall>j. Suc j < n \<longrightarrow> retried (verdict (rep (calls w + j)))) \<and>
        (n < 40 \<longrightarrow> \<not> retried (verdict (rep (calls w + n - 1)))) \<and>
        res = surfaced mk (rep (calls w + n - 1)))"

text \<open>The number of attempts an operation makes, and the outcome of its last call.\<close>

definition attemptsMade :: "tokenExchangeService \<Rightarrow> exchange \<Rightarrow> world \<Rightarrow> nat" where
  "attemptsMade t x w = calls (snd (Exchange t x w)) - calls w"

definition lastReply :: "tokenExchangeService \<Rightarrow> exchange \<Rightarrow> world \<Rightarrow> doResult" where
  "lastReply t x w = reply t x (calls w + attemptsMade t x w - 1)"

subsection \<open>Example inputs\<close>

text \<open>
  A configuration, the zero values of the two body structs, and two transports that fail
  every call without a response: one with a TCP dial error, one with a TLS error.
\<close>

definition cfg0 :: AuthConfiguration where
  "cfg0 = \<lparr>IamURL = ''https://iam.cloud.ibm.com'', IamClientID = ''id'', IamClientSecret = ''secret''\<rparr>"

definition noBody :: tokenExchangeResponse where
  "noBody = \<lparr>AccessToken = [], ImsToken = [], ImsUserID = 0\<rparr>"

definition noErrorBody :: errorBody where
  "noErrorBody = \<lparr>ErrorMessage = [], ErrorType = [], ErrorDetails = [],
                   Requirements = \<lparr>Error = [], Code = []\<rparr>\<rparr>"

definition tcpDown :: transport where
  "tcpDown k rq = \<lparr>resp = None,
                    doErr = Some (PlainError ''dial tcp 10.0.0.1:443: connect: connection refused''),
                    successV = noBody, errorV = noErrorBody\<rparr>"

definition badCert :: transport where
  "badCert k rq = \<lparr>resp = None,
                    doErr = Some (PlainError ''x509: certificate signed by unknown authority''),
                    successV = noBody, errorV = noErrorBody\<rparr>"

text \<open>
  A transport that answers every call with status 200 and a given success body, and one
  whose first two calls fail with the TCP dial error before it does so.
\<close>

definition ok200 :: "tokenExchangeResponse \<Rightarrow> transport" where
  "ok200 body k rq = \<lparr>resp = Some \<lparr>StatusCode = 200\<rparr>, doErr = None,
                       successV = body, errorV = noErrorBody\<rparr>"

definition flaky :: "tokenExchangeResponse \<Rightarrow> transport" where
  "flaky body k rq = (if k < 2 then tcpDown k rq else ok200 body k rq)"

text \<open>
  A transport that answers every call with the same outcome; the outcome "a response with
  a given status and error body, and no error"; the outcome "a response with status 200
  whose body could not be decoded", which the client reports with the response and an
  error; and the error body of the spec's example, for a given error code and
  requirements code.
\<close>

definition always :: "doResult \<Rightarrow> transport" where
  "always d k rq = d"

definition rejected :: "int \<Rightarrow> errorBody \<Rightarrow> doResult" where
  "rejected status body =
     \<lparr>resp = Some \<lparr>StatusCode = status\<rparr>, doErr = None, successV = noBody, errorV = body\<rparr>"

definition undecodable :: doResult where
  "undecodable =
     \<lparr>resp = Some \<lparr>StatusCode = 200\<rparr>, doErr = Some (PlainError ''unexpected end of JSON input''),
      successV = noBody, errorV = noErrorBody\<rparr>"


section \<open>Properties\<close>

subsection \<open>Connection-error classification\<close>

lemma Contains_sublist: "Contains s substr \<longleftrightarrow> sublist substr s"
  by (induction s) (simp_all add: sublist_Cons_right)

lemma anyTcp_set: "anyTcp ws \<longleftrightarrow> (\<exists>w\<in>set ws. sublist ''tcp'' w)"
  by (induction ws) (simp_all add: Contains_sublist)

text \<open>
  Claim C3. For every error value, nil included, \<open>IsConnectionError\<close> returns true if and
  only if the chain of underlying causes that the error unwraps to, each rendered as text,
  has a layer whose text contains "tcp" as a contiguous substring. The chain of nil is
  empty.
\<close>

theorem IsConnectionError_iff_tcp_in_chain:
  "IsConnectionError err \<longleftrightarrow>
     (\<exists>e. err = Some e \<and> (\<exists>w\<in>set (ErrorDeepUnwrapString e). sublist ''tcp'' w))"
  by (cases err) (simp_all add: IsConnectionError_def anyTcp_set)

theorem IsConnectionError_iff_tcp_in_chain_witness:
  "IsConnectionError (Some (NewError ''ErrorUnclassified'' ''IAM token exchange request failed''
       [PlainError ''dial tcp 10.0.0.1:443: i/o timeout'']))
   \<and> \<not> IsConnectionError (Some (NewError ''ErrorUnclassified''
       ''Unexpected IAM token exchange response'' []))
   \<and> \<not> IsConnectionError (Some (PlainError ''dial tcp 10.0.0.1:443: i/o timeout''))
   \<and> \<not> IsConnectionError None"
  using IsConnectionError_iff_tcp_in_chain
          [of "Some (NewError ''ErrorUnclassified'' ''IAM token exchange request failed''
                 [PlainError ''dial tcp 10.0.0.1:443: i/o timeout''])"]
        IsConnectionError_iff_tcp_in_chain
          [of "Some (NewError ''ErrorUnclassified''
                 ''Unexpected IAM token exchange response'' [])"]
        IsConnectionError_iff_tcp_in_chain
          [of "Some (PlainError ''dial tcp 10.0.0.1:443: i/o timeout'')"]
        IsConnectionError_iff_tcp_in_chain [of None]
  by (simp add: NewError_def sublist_Cons_right)

subsection \<open>UpdateAPIKey\<close>

text \<open>
  Claim C8. For every input string, \<open>UpdateAPIKey\<close> returns no error and leaves the
  service and the environment as they were.
\<close>

theorem UpdateAPIKey_noop:
  "fst (UpdateAPIKey t apiKey w) = None \<and> snd (UpdateAPIKey t apiKey w) = (t, w)"
  by (simp add: UpdateAPIKey_def)

subsection \<open>One attempt\<close>

lemma classify_fst: "fst (classify d w) = verdict d"
  unfolding verdict_def classify_def
  by (simp add: Let_def split: option.split)

lemma classify_calls: "calls (snd (classify d w)) = calls w"
  unfolding classify_def Log_def
  by (simp add: Let_def split: option.split)

lemma classify_sent: "sent (snd (classify d w)) = sent w"
  unfolding classify_def Log_def
  by (simp add: Let_def split: option.split)

lemma classify_slept: "slept (snd (classify d w)) = slept w"
  unfolding classify_def Log_def
  by (simp add: Let_def split: option.split)

lemma doRequest_fst: "fst (doRequest r w) = client r (calls w) (request r)"
  by (simp add: doRequest_def Log_def Let_def)

lemma doRequest_calls: "calls (snd (doRequest r w)) = Suc (calls w)"
  by (simp add: doRequest_def Log_def Let_def)

lemma doRequest_sent: "sent (snd (doRequest r w)) = sent w @ [request r]"
  by (simp add: doRequest_def Log_def Let_def)

lemma doRequest_slept: "slept (snd (doRequest r w)) = slept w"
  by (simp add: doRequest_def Log_def Let_def)

lemma setHeaders_request:
  "request (setHeaders r) =
     SetHeader ''Accept'' ''application/json''
       (SetHeader ''Authorization''
          (''Basic '' @ EncodeToString (IamClientID (authConfig (tes r)) @ '':'' @
                                        IamClientSecret (authConfig (tes r))))
          (request r))"
  by (simp add: setHeaders_def Let_def)

lemma setHeaders_other:
  "tes (setHeaders r) = tes r" "client (setHeaders r) = client r"
  "errorRetrier (setHeaders r) = errorRetrier r"
  by (simp_all add: setHeaders_def Let_def)

lemma update_again:
  assumes "k \<noteq> k'"
  shows "AList.update k v (AList.update k' v' (AList.update k v (AList.update k' v' xs)))
         = AList.update k v (AList.update k' v' xs)"
proof -
  let ?X = "AList.update k v (AList.update k' v' xs)"
  have "map_of ?X k' = Some v'" using assms by (simp add: update_conv')
  then have 1: "AList.update k' v' ?X = ?X" by (rule update_triv)
  have "map_of ?X k = Some v" by (simp add: update_conv')
  then have "AList.update k v ?X = ?X" by (rule update_triv)
  with 1 show ?thesis by simp
qed

lemma SetHeader_again:
  "k \<noteq> k' \<Longrightarrow> SetHeader k v (SetHeader k' v' (SetHeader k v (SetHeader k' v' rq)))
     = SetHeader k v (SetHeader k' v' rq)"
  by (simp add: SetHeader_def update_again)

lemma setHeaders_idem: "setHeaders (setHeaders r) = setHeaders r"
proof -
  have "request (setHeaders (setHeaders r)) = request (setHeaders r)"
    by (simp only: setHeaders_request setHeaders_other) (rule SetHeader_again, simp)
  moreover have "setHeaders r' = r'\<lparr>request := request (setHeaders r')\<rparr>" for r'
    by (simp add: setHeaders_def Let_def)
  ultimately show ?thesis
    by (metis (no_types) tokenExchangeRequest.update_convs(2) tokenExchangeRequest.surjective tokenExchangeRequest.simps)
qed


lemma answer_setHeaders: "answer (setHeaders r) k = answer r k"
  by (simp add: answer_def setHeaders_idem setHeaders_other)

lemma send_eq:
  "sendTokenExchangeRequest r w = (verdict (answer r (calls w)), setHeaders r, worldAfter r w)"
proof -
  have "fst (sendTokenExchangeRequest r w) = verdict (answer r (calls w))"
    using doRequest_fst [of "setHeaders r" w]
    by (simp add: sendTokenExchangeRequest_def Let_def split_beta classify_fst answer_def
          setHeaders_other)
  moreover have "fst (snd (sendTokenExchangeRequest r w)) = setHeaders r"
    by (simp add: sendTokenExchangeRequest_def Let_def split_beta)
  ultimately show ?thesis
    by (simp add: worldAfter_def prod_eq_iff)
qed

lemma worldAfter_calls: "calls (worldAfter r w) = Suc (calls w)"
  by (simp add: worldAfter_def sendTokenExchangeRequest_def Let_def split_beta
        classify_calls doRequest_calls)

lemma worldAfter_sent: "sent (worldAfter r w) = sent w @ [request (setHeaders r)]"
  by (simp add: worldAfter_def sendTokenExchangeRequest_def Let_def split_beta
        classify_sent doRequest_sent)

lemma worldAfter_slept: "slept (worldAfter r w) = slept w"
  by (simp add: worldAfter_def sendTokenExchangeRequest_def Let_def split_beta
        classify_slept doRequest_slept)

lemma retryFunc_eq:
  "retryFunc (r, iamResp, err) w =
     (case verdict (answer r (calls w)) of
        Panic \<Rightarrow> (Panic, (setHeaders r, iamResp, err), worldAfter r w)
      | Return (v, e) \<Rightarrow>
          (Return (e, \<not> IsConnectionError e), (setHeaders r, v, e), worldAfter r w))"
  by (simp add: retryFunc_def send_eq split: go.split)

lemma IsConnectionError_None: "\<not> IsConnectionError None"
  by (simp add: IsConnectionError_def)

lemma loop_step:
  "ErrorRetry_loop er retryFunc i (r, iamResp, err) w =
     (case verdict (answer r (calls w)) of
        Panic \<Rightarrow> (Panic, (setHeaders r, iamResp, err), worldAfter r w)
      | Return (v, e) \<Rightarrow>
          if IsConnectionError e \<and> i < MaxAttempts er - 1
          then ErrorRetry_loop er retryFunc (i + 1) (setHeaders r, v, e)
                 ((worldAfter r w)\<lparr>slept := slept (worldAfter r w) + RetryInterval er\<rparr>)
          else (Return e, (setHeaders r, v, e), worldAfter r w))"
  apply (subst ErrorRetry_loop.simps)
  apply (simp add: retryFunc_eq split: go.split)
  using IsConnectionError_None apply auto
  done


lemma loopSpec_one:
  assumes "verdict (answer r (calls w)) = out"
      and "retried out \<longrightarrow> MaxAttempts er - 1 \<le> i"
      and "case out of Panic \<Rightarrow> res = Panic | Return (v, e) \<Rightarrow> res = Return e \<and> s' = (setHeaders r, v, e)"
  shows "loopSpec er i r w (res, s', worldAfter r w) 1"
  using assms
  by (auto simp: loopSpec_def worldAfter_calls worldAfter_slept worldAfter_sent)

lemma loopSpec_more:
  assumes "verdict (answer r (calls w)) = Return (v, e)" "IsConnectionError e"
      and "i < MaxAttempts er - 1"
      and "loopSpec er (i + 1) (setHeaders r)
             ((worldAfter r w)\<lparr>slept := slept (worldAfter r w) + RetryInterval er\<rparr>) result n"
  shows "loopSpec er i r w result (Suc n)"
proof -
  obtain res s' w' where result: "result = (res, s', w')" by (cases result)
  let ?W = "(worldAfter r w)\<lparr>slept := slept (worldAfter r w) + RetryInterval er\<rparr>"
  from assms(4) [unfolded loopSpec_def result setHeaders_idem answer_setHeaders] have
    n1: "1 \<le> n" and nb: "int n \<le> max 1 (MaxAttempts er - (i + 1))" and
    c: "calls w' = calls ?W + n" and
    sl: "slept w' = slept ?W + (int n - 1) * RetryInterval er" and
    se: "sent w' = sent ?W @ replicate n (request (setHeaders r))" and
    re: "\<forall>j. Suc j < n \<longrightarrow> retried (verdict (answer r (calls ?W + j)))" and
    la: "int n < MaxAttempts er - (i + 1) \<longrightarrow> \<not> retried (verdict (answer r (calls ?W + n - 1)))" and
    fi: "case verdict (answer r (calls ?W + n - 1)) of
           Panic \<Rightarrow> res = Panic
         | Return (v, e) \<Rightarrow> res = Return e \<and> s' = (setHeaders r, v, e)"
    by simp_all
  have cW: "calls ?W = Suc (calls w)" by (simp add: worldAfter_calls)
  have idx: "calls ?W + n - 1 = calls w + Suc n - 1" using n1 cW by simp
  have A: "1 \<le> Suc n" by simp
  have B: "int (Suc n) \<le> max 1 (MaxAttempts er - i)" using nb assms(3) by simp
  have C: "calls w' = calls w + Suc n" using c cW by simp
  have D: "slept w' = slept w + (int (Suc n) - 1) * RetryInterval er"
    using sl n1 by (simp add: worldAfter_slept algebra_simps)
  have E: "sent w' = sent w @ replicate (Suc n) (request (setHeaders r))"
    using se by (simp add: worldAfter_sent)
  have F: "\<forall>j. Suc j < Suc n \<longrightarrow> retried (verdict (answer r (calls w + j)))"
  proof (intro allI impI)
    fix j assume j: "Suc j < Suc n"
    show "retried (verdict (answer r (calls w + j)))"
    proof (cases j)
      case 0
      then show ?thesis using assms(1,2) by (simp add: retried_def)
    next
      case (Suc j')
      then have "Suc j' < n" using j by simp
      with re have "retried (verdict (answer r (calls ?W + j')))" by blast
      then show ?thesis using Suc cW by simp
    qed
  qed
  have G: "int (Suc n) < MaxAttempts er - i \<longrightarrow>
           \<not> retried (verdict (answer r (calls w + Suc n - 1)))"
    using la idx by auto
  have H: "case verdict (answer r (calls w + Suc n - 1)) of
           Panic \<Rightarrow> res = Panic
         | Return (v, e) \<Rightarrow> res = Return e \<and> s' = (setHeaders r, v, e)"
    using fi idx by simp
  show ?thesis
    unfolding loopSpec_def result using A B C D E F G H by simp
qed

lemma loop_char:
  "\<exists>n. loopSpec er i r w (ErrorRetry_loop er retryFunc i (r, iamResp, err) w) n"
proof (induction "nat (MaxAttempts er - 1 - i)" arbitrary: i r iamResp err w rule: less_induct)
  case less
  show ?case
  proof (cases "verdict (answer r (calls w))")
    case Panic
    then have "ErrorRetry_loop er retryFunc i (r, iamResp, err) w =
                 (Panic, (setHeaders r, iamResp, err), worldAfter r w)"
      by (subst loop_step) simp
    moreover have "loopSpec er i r w (Panic, (setHeaders r, iamResp, err), worldAfter r w) 1"
      by (rule loopSpec_one [OF Panic]) (simp_all add: retried_def)
    ultimately show ?thesis by auto
  next
    case (Return p)
    obtain v e where p: "p = (v, e)" by (cases p)
    have out: "verdict (answer r (calls w)) = Return (v, e)" using Return p by simp
    show ?thesis
    proof (cases "IsConnectionError e \<and> i < MaxAttempts er - 1")
      case True
      let ?W = "(worldAfter r w)\<lparr>slept := slept (worldAfter r w) + RetryInterval er\<rparr>"
      have eq: "ErrorRetry_loop er retryFunc i (r, iamResp, err) w =
                ErrorRetry_loop er retryFunc (i + 1) (setHeaders r, v, e) ?W"
        using True out by (subst loop_step) simp
      have "nat (MaxAttempts er - 1 - (i + 1)) < nat (MaxAttempts er - 1 - i)"
        using True by simp
      from less [OF this] obtain n where
        "loopSpec er (i + 1) (setHeaders r) ?W
           (ErrorRetry_loop er retryFunc (i + 1) (setHeaders r, v, e) ?W) n"
        by blast
      then have "loopSpec er i r w (ErrorRetry_loop er retryFunc i (r, iamResp, err) w) (Suc n)"
        unfolding eq using out True by (intro loopSpec_more) auto
      then show ?thesis by blast
    next
      case False
      then have "ErrorRetry_loop er retryFunc i (r, iamResp, err) w =
                 (Return e, (setHeaders r, v, e), worldAfter r w)"
        using out by (subst loop_step) auto
      moreover have "loopSpec er i r w (Return e, (setHeaders r, v, e), worldAfter r w) 1"
        using False by (intro loopSpec_one [OF out]) (auto simp: retried_def)
      ultimately show ?thesis by auto
    qed
  qed
qed

subsection \<open>A whole exchange\<close>

lemma verdict_ok:
  "verdict d = Return (v, None) \<longleftrightarrow>
     doErr d = None \<and> (\<exists>rs. resp d = Some rs \<and> StatusCode rs = 200) \<and> v = Some (successV d)"
  unfolding verdict_def classify_def
  by (auto simp: Let_def NewError_def split: option.split)

lemma verdict_Panic:
  "verdict d = Panic \<longleftrightarrow> doErr d = None \<and> resp d = None"
  unfolding verdict_def classify_def
  by (auto simp: Let_def split: option.split)

lemma verdict_err: "verdict d = Return (v, Some e) \<Longrightarrow> v = None"
  unfolding verdict_def classify_def
  by (auto simp: Let_def split: option.splits if_splits)

lemma loop_to_run:
  assumes er: "MaxAttempts er = 40" "RetryInterval er = 3 * Second"
      and loop: "loopSpec er 0 r w (res, (r', iamResp, err0), w') n"
      and fin: "out = (case res of
                  Panic \<Rightarrow> (Panic, w')
                | Return err \<Rightarrow>
                    (case err of
                       Some e \<Rightarrow> (Return (None, Some e), w')
                     | None \<Rightarrow>
                         (case iamResp of
                            None \<Rightarrow> (Panic, w')
                          | Some v \<Rightarrow> (Return (Some (mk v), None), w'))))"
  shows "runSpec (answer r) (request (setHeaders r)) mk w out n"
proof -
  let ?d = "answer r (calls w + n - 1)"
  from loop have
    A: "1 \<le> n" "int n \<le> max 1 (MaxAttempts er - 0)" "calls w' = calls w + n"
       "slept w' = slept w + (int n - 1) * RetryInterval er"
       "sent w' = sent w @ replicate n (request (setHeaders r))"
       "\<forall>j. Suc j < n \<longrightarrow> retried (verdict (answer r (calls w + j)))"
       "int n < MaxAttempts er - 0 \<longrightarrow> \<not> retried (verdict ?d)" and
    L: "case verdict ?d of
          Panic \<Rightarrow> res = Panic
        | Return (v, e) \<Rightarrow> res = Return e \<and> (r', iamResp, err0) = (setHeaders r, v, e)"
    by (simp_all add: loopSpec_def)
  have res: "out = (surfaced mk ?d, w')"
  proof (cases "verdict ?d")
    case Panic
    then show ?thesis using L fin by (simp add: surfaced_def)
  next
    case (Return p)
    obtain v e where p: "p = (v, e)" by (cases p)
    show ?thesis
    proof (cases e)
      case None
      then have "v = Some (successV ?d)" using Return p verdict_ok [of ?d v] by simp
      then show ?thesis using L fin Return p None by (simp add: surfaced_def)
    next
      case (Some e')
      then show ?thesis using L fin Return p by (simp add: surfaced_def)
    qed
  qed
  show ?thesis
    unfolding runSpec_def res using A er by simp
qed

lemma exchangeForAccessToken_run:
  assumes "errorRetrier r = NewErrorRetrier 40 (3 * Second)"
  shows "\<exists>n. runSpec (answer r) (request (setHeaders r))
                (\<lambda>v. AccessToken.AccessToken (AccessToken v)) w (exchangeForAccessToken r w) n"
proof -
  let ?er = "errorRetrier r"
  define R where "R = ErrorRetry_loop ?er retryFunc 0 (r, None, None) w"
  obtain res s' w' where R1: "R = (res, s', w')" by (cases R) auto
  obtain r' iamResp err0 where s': "s' = (r', iamResp, err0)" by (cases s') auto
  have L: "ErrorRetry_loop ?er retryFunc 0 (r, None, None) w = (res, (r', iamResp, err0), w')"
    using R1 s' R_def by simp
  from loop_char [of ?er 0 r w None None] obtain n where
    n: "loopSpec ?er 0 r w (res, (r', iamResp, err0), w') n"
    unfolding L by blast
  have er: "MaxAttempts ?er = 40" "RetryInterval ?er = 3 * Second"
    using assms by (simp_all add: NewErrorRetrier_def)
  have fin: "exchangeForAccessToken r w =
       (case res of
          Panic \<Rightarrow> (Panic, w')
        | Return err \<Rightarrow>
            (case err of
               Some e \<Rightarrow> (Return (None, Some e), w')
             | None \<Rightarrow>
                 (case iamResp of
                    None \<Rightarrow> (Panic, w')
                  | Some v \<Rightarrow> (Return (Some (AccessToken.AccessToken (AccessToken v)), None), w'))))"
    unfolding exchangeForAccessToken_def ErrorRetry_def L by (simp split: go.split)
  show ?thesis
    by (rule exI [of _ n]) (rule loop_to_run [OF er n fin])
qed

lemma exchangeForIMSToken_run:
  assumes "errorRetrier r = NewErrorRetrier 40 (3 * Second)"
  shows "\<exists>n. runSpec (answer r) (request (setHeaders r))
                (\<lambda>v. IMSToken.IMSToken (ImsUserID v) (ImsToken v)) w (exchangeForIMSToken r w) n"
proof -
  let ?er = "errorRetrier r"
  define R where "R = ErrorRetry_loop ?er retryFunc 0 (r, None, None) w"
  obtain res s' w' where R1: "R = (res, s', w')" by (cases R) auto
  obtain r' iamResp err0 where s': "s' = (r', iamResp, err0)" by (cases s') auto
  have L: "ErrorRetry_loop ?er retryFunc 0 (r, None, None) w = (res, (r', iamResp, err0), w')"
    using R1 s' R_def by simp
  from loop_char [of ?er 0 r w None None] obtain n where
    n: "loopSpec ?er 0 r w (res, (r', iamResp, err0), w') n"
    unfolding L by blast
  have er: "MaxAttempts ?er = 40" "RetryInterval ?er = 3 * Second"
    using assms by (simp_all add: NewErrorRetrier_def)
  have fin: "exchangeForIMSToken r w =
       (case res of
          Panic \<Rightarrow> (Panic, w')
        | Return err \<Rightarrow>
            (case err of
               Some e \<Rightarrow> (Return (None, Some e), w')
             | None \<Rightarrow>
                 (case iamResp of
                    None \<Rightarrow> (Panic, w')
                  | Some v \<Rightarrow> (Return (Some (IMSToken.IMSToken (ImsUserID v) (ImsToken v)), None), w'))))"
    unfolding exchangeForIMSToken_def ErrorRetry_def L by (simp split: go.split)
  show ?thesis
    by (rule exI [of _ n]) (rule loop_to_run [OF er n fin])
qed


lemma ExchangeRefreshTokenForAccessToken_built:
  "\<exists>r. ExchangeRefreshTokenForAccessToken t refreshToken w = exchangeForAccessToken r w \<and>
       errorRetrier r = NewErrorRetrier 40 (3 * Second) \<and>
       client r = httpClient t \<and>
       request (setHeaders r) = specRequest (authConfig t) (formFields (RefreshTokenForAccessToken refreshToken))"
  unfolding ExchangeRefreshTokenForAccessToken_def Let_def
  by (rule exI, intro conjI, rule refl)
     (simp_all add: newTokenExchangeRequest_def setHeaders_request SetHeader_def Field_def
        PostRequest_def specRequest_def Let_def)

lemma ExchangeAccessTokenForIMSToken_built:
  "\<exists>r. ExchangeAccessTokenForIMSToken t accessToken w = exchangeForIMSToken r w \<and>
       errorRetrier r = NewErrorRetrier 40 (3 * Second) \<and>
       client r = httpClient t \<and>
       request (setHeaders r) = specRequest (authConfig t) (formFields (AccessTokenForIMSToken accessToken))"
  unfolding ExchangeAccessTokenForIMSToken_def Let_def
  by (rule exI, intro conjI, rule refl)
     (simp_all add: newTokenExchangeRequest_def setHeaders_request SetHeader_def Field_def
        PostRequest_def specRequest_def Let_def)

lemma ExchangeIAMAPIKeyForIMSToken_built:
  "\<exists>r. ExchangeIAMAPIKeyForIMSToken t iamAPIKey w = exchangeForIMSToken r w \<and>
       errorRetrier r = NewErrorRetrier 40 (3 * Second) \<and>
       client r = httpClient t \<and>
       request (setHeaders r) = specRequest (authConfig t) (formFields (IAMAPIKeyForIMSToken iamAPIKey))"
  unfolding ExchangeIAMAPIKeyForIMSToken_def Let_def
  by (rule exI, intro conjI, rule refl)
     (simp_all add: newTokenExchangeRequest_def setHeaders_request SetHeader_def Field_def
        PostRequest_def specRequest_def Let_def)

lemma ExchangeIAMAPIKeyForAccessToken_built:
  "\<exists>r. ExchangeIAMAPIKeyForAccessToken t iamAPIKey w = exchangeForAccessToken r w \<and>
       errorRetrier r = NewErrorRetrier 40 (3 * Second) \<and>
       client r = httpClient t \<and>
       request (setHeaders r) = specRequest (authConfig t) (formFields (IAMAPIKeyForAccessToken iamAPIKey))"
  unfolding ExchangeIAMAPIKeyForAccessToken_def Let_def
  by (rule exI, intro conjI, rule refl)
     (simp_all add: newTokenExchangeRequest_def setHeaders_request SetHeader_def Field_def
        PostRequest_def specRequest_def Let_def)


lemma answer_reply:
  assumes "client r = httpClient t" "request (setHeaders r) = specRequest (authConfig t) (formFields x)"
  shows "answer r = reply t x"
  using assms by (simp add: answer_def reply_def fun_eq_iff)

lemma surfaced_map:
  "map_go (\<lambda>(tok, err). (map_option f tok, err)) (surfaced mk d) = surfaced (\<lambda>v. f (mk v)) d"
  by (simp add: surfaced_def split: go.split option.split)

lemma runSpec_asAccess:
  "runSpec rep rq mk w out n \<Longrightarrow> runSpec rep rq (\<lambda>v. IsAccessToken (mk v)) w (asAccess out) n"
  by (cases out) (simp add: runSpec_def asAccess_def surfaced_map)

lemma runSpec_asIMS:
  "runSpec rep rq mk w out n \<Longrightarrow> runSpec rep rq (\<lambda>v. IsIMSToken (mk v)) w (asIMS out) n"
  by (cases out) (simp add: runSpec_def asIMS_def surfaced_map)

lemma specToken_eqs:
  "specToken (RefreshTokenForAccessToken a) = (\<lambda>v. IsAccessToken (AccessToken.AccessToken (AccessToken v)))"
  "specToken (IAMAPIKeyForAccessToken a) = (\<lambda>v. IsAccessToken (AccessToken.AccessToken (AccessToken v)))"
  "specToken (AccessTokenForIMSToken b) = (\<lambda>v. IsIMSToken (IMSToken.IMSToken (ImsUserID v) (ImsToken v)))"
  "specToken (IAMAPIKeyForIMSToken a) = (\<lambda>v. IsIMSToken (IMSToken.IMSToken (ImsUserID v) (ImsToken v)))"
  by (simp_all add: fun_eq_iff)

lemma Exchange_run:
  "\<exists>n. runSpec (reply t x) (specRequest (authConfig t) (formFields x)) (specToken x) w
          (Exchange t x w) n"
proof (cases x)
  case (RefreshTokenForAccessToken a)
  obtain r where r: "ExchangeRefreshTokenForAccessToken t a w = exchangeForAccessToken r w"
    "errorRetrier r = NewErrorRetrier 40 (3 * Second)" "client r = httpClient t"
    "request (setHeaders r) = specRequest (authConfig t) (formFields (RefreshTokenForAccessToken a))"
    using ExchangeRefreshTokenForAccessToken_built by blast
  from exchangeForAccessToken_run [OF r(2), of w] obtain n where
    "runSpec (answer r) (request (setHeaders r))
       (\<lambda>v. AccessToken.AccessToken (AccessToken v)) w (exchangeForAccessToken r w) n" by blast
  then have "runSpec (reply t x) (specRequest (authConfig t) (formFields x)) (specToken x) w
          (Exchange t x w) n"
    unfolding RefreshTokenForAccessToken Exchange.simps r(1) specToken_eqs
      answer_reply [OF r(3,4)] r(4)
    by (rule runSpec_asAccess)
  then show ?thesis ..
next
  case (AccessTokenForIMSToken a)
  obtain r where r: "ExchangeAccessTokenForIMSToken t a w = exchangeForIMSToken r w"
    "errorRetrier r = NewErrorRetrier 40 (3 * Second)" "client r = httpClient t"
    "request (setHeaders r) = specRequest (authConfig t) (formFields (AccessTokenForIMSToken a))"
    using ExchangeAccessTokenForIMSToken_built by blast
  from exchangeForIMSToken_run [OF r(2), of w] obtain n where
    "runSpec (answer r) (request (setHeaders r))
       (\<lambda>v. IMSToken.IMSToken (ImsUserID v) (ImsToken v)) w (exchangeForIMSToken r w) n" by blast
  then have "runSpec (reply t x) (specRequest (authConfig t) (formFields x)) (specToken x) w
          (Exchange t x w) n"
    unfolding AccessTokenForIMSToken Exchange.simps r(1) specToken_eqs
      answer_reply [OF r(3,4)] r(4)
    by (rule runSpec_asIMS)
  then show ?thesis ..
next
  case (IAMAPIKeyForIMSToken a)
  obtain r where r: "ExchangeIAMAPIKeyForIMSToken t a w = exchangeForIMSToken r w"
    "errorRetrier r = NewErrorRetrier 40 (3 * Second)" "client r = httpClient t"
    "request (setHeaders r) = specRequest (authConfig t) (formFields (IAMAPIKeyForIMSToken a))"
    using ExchangeIAMAPIKeyForIMSToken_built by blast
  from exchangeForIMSToken_run [OF r(2), of w] obtain n where
    "runSpec (answer r) (request (setHeaders r))
       (\<lambda>v. IMSToken.IMSToken (ImsUserID v) (ImsToken v)) w (exchangeForIMSToken r w) n" by blast
  then have "runSpec (reply t x) (specRequest (authConfig t) (formFields x)) (specToken x) w
          (Exchange t x w) n"
    unfolding IAMAPIKeyForIMSToken Exchange.simps r(1) specToken_eqs
      answer_reply [OF r(3,4)] r(4)
    by (rule runSpec_asIMS)
  then show ?thesis ..
next
  case (IAMAPIKeyForAccessToken a)
  obtain r where r: "ExchangeIAMAPIKeyForAccessToken t a w = exchangeForAccessToken r w"
    "errorRetrier r = NewErrorRetrier 40 (3 * Second)" "client r = httpClient t"
    "request (setHeaders r) = specRequest (authConfig t) (formFields (IAMAPIKeyForAccessToken a))"
    using ExchangeIAMAPIKeyForAccessToken_built by blast
  from exchangeForAccessToken_run [OF r(2), of w] obtain n where
    "runSpec (answer r) (request (setHeaders r))
       (\<lambda>v. AccessToken.AccessToken (AccessToken v)) w (exchangeForAccessToken r w) n" by blast
  then have "runSpec (reply t x) (specRequest (authConfig t) (formFields x)) (specToken x) w
          (Exchange t x w) n"
    unfolding IAMAPIKeyForAccessToken Exchange.simps r(1) specToken_eqs
      answer_reply [OF r(3,4)] r(4)
    by (rule runSpec_asAccess)
  then show ?thesis ..
qed

lemma Exchange_spec:
  "runSpec (reply t x) (specRequest (authConfig t) (formFields x)) (specToken x) w
     (Exchange t x w) (attemptsMade t x w)"
proof -
  obtain n where n: "runSpec (reply t x) (specRequest (authConfig t) (formFields x))
                       (specToken x) w (Exchange t x w) n"
    using Exchange_run by blast
  then have "calls (snd (Exchange t x w)) = calls w + n"
    by (simp add: runSpec_def split_beta)
  then have "attemptsMade t x w = n" by (simp add: attemptsMade_def)
  with n show ?thesis by simp
qed

lemma attemptsMade_bounds: "1 \<le> attemptsMade t x w" "attemptsMade t x w \<le> 40"
  using Exchange_spec [of t x w] by (simp_all add: runSpec_def split_beta)

lemma Exchange_slept:
  "slept (snd (Exchange t x w)) = slept w + (int (attemptsMade t x w) - 1) * (3 * Second)"
  using Exchange_spec [of t x w] by (simp add: runSpec_def split_beta)

lemma Exchange_sent:
  "sent (snd (Exchange t x w)) =
     sent w @ replicate (attemptsMade t x w) (specRequest (authConfig t) (formFields x))"
  using Exchange_spec [of t x w] by (simp add: runSpec_def split_beta)

lemma Exchange_retried:
  "Suc j < attemptsMade t x w \<Longrightarrow> retried (verdict (reply t x (calls w + j)))"
  using Exchange_spec [of t x w] by (simp add: runSpec_def split_beta)

lemma Exchange_stop:
  "attemptsMade t x w < 40 \<Longrightarrow> \<not> retried (verdict (lastReply t x w))"
  using Exchange_spec [of t x w] by (simp add: runSpec_def split_beta lastReply_def)

lemma Exchange_result:
  "fst (Exchange t x w) = surfaced (specToken x) (lastReply t x w)"
  using Exchange_spec [of t x w] by (simp add: runSpec_def split_beta lastReply_def)

lemma verdict_doErr:
  "doErr d = Some err \<Longrightarrow>
   verdict d = Return (None, Some (NewError ''ErrorUnclassified''
                                     ''IAM token exchange request failed'' [err]))"
  unfolding verdict_def classify_def by simp

lemma tcp_text: "IsConnectionError (Some (ProviderError ''ErrorUnclassified'' ''IAM token exchange request failed''
                [''dial tcp 10.0.0.1:443: connect: connection refused'']))"
  by (simp add: IsConnectionError_def)

lemma cert_text: "\<not> IsConnectionError (Some (ProviderError ''ErrorUnclassified'' ''IAM token exchange request failed''
                [''x509: certificate signed by unknown authority'']))"
  by (simp add: IsConnectionError_def)

lemma tcpDown_verdict:
  "verdict (reply \<lparr>authConfig = cfg0, httpClient = tcpDown\<rparr> x k) =
     Return (None, Some (ProviderError ''ErrorUnclassified'' ''IAM token exchange request failed''
                [''dial tcp 10.0.0.1:443: connect: connection refused'']))"
  by (simp add: reply_def tcpDown_def verdict_doErr NewError_def)

lemma badCert_verdict:
  "verdict (reply \<lparr>authConfig = cfg0, httpClient = badCert\<rparr> x k) =
     Return (None, Some (ProviderError ''ErrorUnclassified'' ''IAM token exchange request failed''
                [''x509: certificate signed by unknown authority'']))"
  by (simp add: reply_def badCert_def verdict_doErr NewError_def)

subsection \<open>The retry policy\<close>

text \<open>
  Claim C4. Every exchange operation makes between 1 and 40 attempts; between two attempts
  it sleeps 3 seconds, so the time slept is 3 seconds times the number of attempts less
  one; every attempt that is followed by another one returned a connection error; the
  operation stops before the 40th attempt only at an attempt that did not return a
  connection error; and the error of the last attempt made is the error returned, which
  is the case in particular when all 40 attempts are used up.
\<close>

theorem bounded_retry_policy:
  "1 \<le> attemptsMade t x w \<and> attemptsMade t x w \<le> 40
   \<and> slept (snd (Exchange t x w)) = slept w + (int (attemptsMade t x w) - 1) * (3 * Second)
   \<and> (\<forall>j. Suc j < attemptsMade t x w \<longrightarrow> retried (verdict (reply t x (calls w + j))))
   \<and> (attemptsMade t x w < 40 \<longrightarrow> \<not> retried (verdict (lastReply t x w)))
   \<and> (\<forall>v e. verdict (lastReply t x w) = Return (v, Some e) \<longrightarrow>
              fst (Exchange t x w) = Return (None, Some e))"
proof -
  have "fst (Exchange t x w) = Return (None, Some e)"
    if "verdict (lastReply t x w) = Return (v, Some e)" for v e
    using that by (simp add: Exchange_result surfaced_def)
  then show ?thesis
    using attemptsMade_bounds [of t x w] Exchange_slept [of t x w] Exchange_retried [of _ t x w]
      Exchange_stop [of t x w]
    by blast
qed

theorem bounded_retry_policy_witness:
  "attemptsMade \<lparr>authConfig = cfg0, httpClient = tcpDown\<rparr> (IAMAPIKeyForIMSToken ''key'') emptyWorld = 40
   \<and> slept (snd (Exchange \<lparr>authConfig = cfg0, httpClient = tcpDown\<rparr> (IAMAPIKeyForIMSToken ''key'')
              emptyWorld)) = 117 * Second
   \<and> fst (Exchange \<lparr>authConfig = cfg0, httpClient = tcpDown\<rparr> (IAMAPIKeyForIMSToken ''key'') emptyWorld)
       = Return (None, Some (ProviderError ''ErrorUnclassified'' ''IAM token exchange request failed''
                [''dial tcp 10.0.0.1:443: connect: connection refused'']))
   \<and> attemptsMade \<lparr>authConfig = cfg0, httpClient = badCert\<rparr> (IAMAPIKeyForIMSToken ''key'') emptyWorld = 1
   \<and> slept (snd (Exchange \<lparr>authConfig = cfg0, httpClient = badCert\<rparr> (IAMAPIKeyForIMSToken ''key'')
              emptyWorld)) = 0
   \<and> fst (Exchange \<lparr>authConfig = cfg0, httpClient = badCert\<rparr> (IAMAPIKeyForIMSToken ''key'') emptyWorld)
       = Return (None, Some (ProviderError ''ErrorUnclassified'' ''IAM token exchange request failed''
                [''x509: certificate signed by unknown authority'']))"
proof -
  let ?t = "\<lparr>authConfig = cfg0, httpClient = tcpDown\<rparr>"
  let ?u = "\<lparr>authConfig = cfg0, httpClient = badCert\<rparr>"
  let ?x = "IAMAPIKeyForIMSToken ''key''"
  note T = bounded_retry_policy [of ?t ?x emptyWorld]
  note U = bounded_retry_policy [of ?u ?x emptyWorld]
  have t: "verdict (lastReply ?t ?x emptyWorld) = Return (None, Some (ProviderError ''ErrorUnclassified'' ''IAM token exchange request failed''
                [''dial tcp 10.0.0.1:443: connect: connection refused'']))"
    by (simp add: lastReply_def tcpDown_verdict)
  have "retried (verdict (lastReply ?t ?x emptyWorld))"
    unfolding t retried_def using tcp_text by simp
  with T have n: "attemptsMade ?t ?x emptyWorld = 40" by auto
  have 1: "slept (snd (Exchange ?t ?x emptyWorld)) = 117 * Second"
    using T n by (simp add: emptyWorld_def)
  have 2: "fst (Exchange ?t ?x emptyWorld) = Return (None, Some (ProviderError ''ErrorUnclassified'' ''IAM token exchange request failed''
                [''dial tcp 10.0.0.1:443: connect: connection refused'']))"
    using T t by blast
  have u: "verdict (reply ?u ?x k) = Return (None, Some (ProviderError ''ErrorUnclassified'' ''IAM token exchange request failed''
                [''x509: certificate signed by unknown authority'']))" for k
    by (rule badCert_verdict)
  have "\<not> retried (verdict (reply ?u ?x (calls emptyWorld + 0)))"
    unfolding u retried_def using cert_text by simp
  with U have "\<not> Suc 0 < attemptsMade ?u ?x emptyWorld" by blast
  with U have m: "attemptsMade ?u ?x emptyWorld = 1" by auto
  have 3: "slept (snd (Exchange ?u ?x emptyWorld)) = 0"
    using U m by (simp add: emptyWorld_def)
  have 4: "fst (Exchange ?u ?x emptyWorld) = Return (None, Some (ProviderError ''ErrorUnclassified'' ''IAM token exchange request failed''
                [''x509: certificate signed by unknown authority'']))"
    using U u [of "calls emptyWorld + attemptsMade ?u ?x emptyWorld - 1"]
    unfolding lastReply_def by blast
  show ?thesis using n 1 2 m 3 4 by simp
qed

subsection \<open>Responses with status 200\<close>

lemma not_retried_ok:
  assumes "doErr d = None" "resp d = Some rs" "StatusCode rs = 200"
  shows "verdict d = Return (Some (successV d), None)" "\<not> retried (verdict d)"
proof -
  show 1: "verdict d = Return (Some (successV d), None)"
    using assms verdict_ok [of d "Some (successV d)"] by simp
  show "\<not> retried (verdict d)"
    unfolding 1 retried_def by (simp add: IsConnectionError_None)
qed

lemma ok_is_last:
  assumes "j < attemptsMade t x w" "\<not> retried (verdict (reply t x (calls w + j)))"
  shows "lastReply t x w = reply t x (calls w + j)"
proof -
  have "\<not> Suc j < attemptsMade t x w" using assms(2) Exchange_retried by blast
  with assms(1) have "attemptsMade t x w = Suc j" by simp
  then show ?thesis by (simp add: lastReply_def)
qed

lemma Exchange_ok:
  assumes "j < attemptsMade t x w"
      and "doErr (reply t x (calls w + j)) = None"
      and "resp (reply t x (calls w + j)) = Some rs" and "StatusCode rs = 200"
  shows "fst (Exchange t x w) =
           Return (Some (specToken x (successV (reply t x (calls w + j)))), None)"
proof -
  note ok = not_retried_ok [OF assms(2,3,4)]
  have "lastReply t x w = reply t x (calls w + j)"
    using assms(1) ok(2) by (rule ok_is_last)
  then show ?thesis
    by (simp add: Exchange_result surfaced_def ok(1))
qed

lemma asAccess_fst:
  "fst (asAccess out) = Return (Some (IsAccessToken tok), err) \<Longrightarrow> fst out = Return (Some tok, err)"
  by (cases out; cases "fst out") (auto simp: asAccess_def)

lemma asIMS_fst:
  "fst (asIMS out) = Return (Some (IsIMSToken tok), err) \<Longrightarrow> fst out = Return (Some tok, err)"
  by (cases out; cases "fst out") (auto simp: asIMS_def)

text \<open>
  Claim C1, as the code has it. Whenever an attempt that an exchange operation makes gets
  a response with status 200 and no error from the client, the operation returns no error
  and the token
  of its type built of the decoded success body: an AccessToken of \<open>access_token\<close> from
  the access-token operations, an IMSToken of \<open>ims_user_id\<close> and \<open>ims_token\<close> from the
  IMS-token operations. The witness has the two bodies of the spec.
\<close>

theorem ok_response_yields_token:
  assumes "j < attemptsMade t x w"
      and "doErr (reply t x (calls w + j)) = None"
      and "resp (reply t x (calls w + j)) = Some rs" and "StatusCode rs = 200"
  shows "fst (Exchange t x w) =
           Return (Some (specToken x (successV (reply t x (calls w + j)))), None)"
  using assms by (rule Exchange_ok)

theorem ok_response_yields_token_witness:
  "fst (ExchangeRefreshTokenForAccessToken
          \<lparr>authConfig = cfg0,
           httpClient = ok200 \<lparr>AccessToken = ''abc'', ImsToken = [], ImsUserID = 0\<rparr>\<rparr>
          ''refresh'' emptyWorld)
     = Return (Some (AccessToken.AccessToken ''abc''), None)
   \<and> fst (ExchangeIAMAPIKeyForIMSToken
          \<lparr>authConfig = cfg0,
           httpClient = flaky \<lparr>AccessToken = [], ImsToken = ''t'', ImsUserID = 7\<rparr>\<rparr>
          ''key'' emptyWorld)
     = Return (Some (IMSToken.IMSToken 7 ''t''), None)"
proof -
  let ?t = "\<lparr>authConfig = cfg0,
             httpClient = ok200 \<lparr>AccessToken = ''abc'', ImsToken = [], ImsUserID = 0\<rparr>\<rparr>"
  let ?x = "RefreshTokenForAccessToken ''refresh''"
  have "0 < attemptsMade ?t ?x emptyWorld" using attemptsMade_bounds(1) [of ?t ?x emptyWorld] by simp
  from ok_response_yields_token [OF this, of "\<lparr>StatusCode = 200\<rparr>"]
  have "fst (Exchange ?t ?x emptyWorld) = Return (Some (IsAccessToken (AccessToken.AccessToken ''abc'')), None)"
    by (simp add: reply_def ok200_def)
  then have A: "fst (ExchangeRefreshTokenForAccessToken ?t ''refresh'' emptyWorld)
     = Return (Some (AccessToken.AccessToken ''abc''), None)"
    by (simp add: asAccess_fst)
  let ?u = "\<lparr>authConfig = cfg0,
             httpClient = flaky \<lparr>AccessToken = [], ImsToken = ''t'', ImsUserID = 7\<rparr>\<rparr>"
  let ?y = "IAMAPIKeyForIMSToken ''key''"
  have r: "retried (verdict (reply ?u ?y k))" if "k < 2" for k
    using that tcp_text
    by (simp add: reply_def flaky_def tcpDown_def verdict_doErr NewError_def retried_def)
  have nr: "\<not> retried (verdict (reply ?u ?y 2))"
    by (rule not_retried_ok(2) [where rs = "\<lparr>StatusCode = 200\<rparr>"])
       (simp_all add: reply_def flaky_def ok200_def)
  have "2 < attemptsMade ?u ?y emptyWorld"
  proof (rule ccontr)
    assume "\<not> 2 < attemptsMade ?u ?y emptyWorld"
    then have le: "attemptsMade ?u ?y emptyWorld \<le> 2" by simp
    then have "attemptsMade ?u ?y emptyWorld < 40" by simp
    then have "\<not> retried (verdict (lastReply ?u ?y emptyWorld))" by (rule Exchange_stop)
    moreover have "calls emptyWorld + attemptsMade ?u ?y emptyWorld - 1 < 2"
      using le attemptsMade_bounds(1) [of ?u ?y emptyWorld] by (simp add: emptyWorld_def)
    ultimately show False using r by (simp add: lastReply_def)
  qed
  from ok_response_yields_token [OF this, of "\<lparr>StatusCode = 200\<rparr>"]
  have "fst (Exchange ?u ?y emptyWorld) = Return (Some (IsIMSToken (IMSToken.IMSToken 7 ''t'')), None)"
    by (simp add: reply_def flaky_def ok200_def emptyWorld_def)
  then have B: "fst (ExchangeIAMAPIKeyForIMSToken ?u ''key'' emptyWorld)
     = Return (Some (IMSToken.IMSToken 7 ''t''), None)"
    by (simp add: asIMS_fst)
  from A B show ?thesis by simp
qed

text \<open>
  A response with status 200 is not enough: line 204 looks at the error of the client
  before line 214 looks at the status. When the client returns the response together
  with an error, as it does for a body that it cannot decode, the attempt ends in an
  Unclassified error, which is not retried, and the operation returns that error and no
  token.
\<close>

lemma asAccess_fst_error:
  "fst (asAccess out) = Return (None, err) \<Longrightarrow> fst out = Return (None, err)"
  by (cases out; cases "fst out") (auto simp: asAccess_def)

lemma asIMS_fst_error:
  "fst (asIMS out) = Return (None, err) \<Longrightarrow> fst out = Return (None, err)"
  by (cases out; cases "fst out") (auto simp: asIMS_def)

lemma verdict_undecodable:
  "verdict undecodable =
     Return (None, Some (ProviderError ''ErrorUnclassified''
               ''IAM token exchange request failed'' [''unexpected end of JSON input'']))"
  using verdict_doErr [of undecodable "PlainError ''unexpected end of JSON input''"]
  by (simp add: undecodable_def NewError_def)

lemma Exchange_undecodable:
  "fst (Exchange \<lparr>authConfig = c, httpClient = always undecodable\<rparr> x w) =
     Return (None, Some (ProviderError ''ErrorUnclassified''
               ''IAM token exchange request failed'' [''unexpected end of JSON input'']))"
proof -
  let ?t = "\<lparr>authConfig = c, httpClient = always undecodable\<rparr>"
  have r: "reply ?t x k = undecodable" for k
    by (simp add: reply_def always_def)
  have "\<not> retried (verdict (reply ?t x (calls w + 0)))"
    unfolding r verdict_undecodable by (simp add: retried_def IsConnectionError_def)
  moreover have "0 < attemptsMade ?t x w"
    using attemptsMade_bounds(1) [of ?t x w] by simp
  ultimately have "lastReply ?t x w = reply ?t x (calls w + 0)"
    by (intro ok_is_last)
  then show ?thesis
    by (simp add: Exchange_result surfaced_def r verdict_undecodable)
qed

theorem ok_response_with_client_error:
  "resp (reply \<lparr>authConfig = cfg0, httpClient = always undecodable\<rparr>
           (RefreshTokenForAccessToken ''refresh'') (calls emptyWorld))
     = Some \<lparr>StatusCode = 200\<rparr>
   \<and> fst (ExchangeRefreshTokenForAccessToken
            \<lparr>authConfig = cfg0, httpClient = always undecodable\<rparr> ''refresh'' emptyWorld)
     = Return (None, Some (ProviderError ''ErrorUnclassified''
                 ''IAM token exchange request failed'' [''unexpected end of JSON input'']))
   \<and> fst (ExchangeIAMAPIKeyForIMSToken
            \<lparr>authConfig = cfg0, httpClient = always undecodable\<rparr> ''key'' emptyWorld)
     = Return (None, Some (ProviderError ''ErrorUnclassified''
                 ''IAM token exchange request failed'' [''unexpected end of JSON input'']))"
proof -
  have "resp (reply \<lparr>authConfig = cfg0, httpClient = always undecodable\<rparr>
           (RefreshTokenForAccessToken ''refresh'') (calls emptyWorld))
     = Some \<lparr>StatusCode = 200\<rparr>"
    by (simp add: reply_def always_def undecodable_def)
  moreover have "fst (ExchangeRefreshTokenForAccessToken
            \<lparr>authConfig = cfg0, httpClient = always undecodable\<rparr> ''refresh'' emptyWorld)
     = Return (None, Some (ProviderError ''ErrorUnclassified''
                 ''IAM token exchange request failed'' [''unexpected end of JSON input'']))"
    using Exchange_undecodable [of cfg0 "RefreshTokenForAccessToken ''refresh''" emptyWorld]
    by (simp add: asAccess_fst_error)
  moreover have "fst (ExchangeIAMAPIKeyForIMSToken
            \<lparr>authConfig = cfg0, httpClient = always undecodable\<rparr> ''key'' emptyWorld)
     = Return (None, Some (ProviderError ''ErrorUnclassified''
                 ''IAM token exchange request failed'' [''unexpected end of JSON input'']))"
    using Exchange_undecodable [of cfg0 "IAMAPIKeyForIMSToken ''key''" emptyWorld]
    by (simp add: asIMS_fst_error)
  ultimately show ?thesis by simp
qed




subsection \<open>Base64\<close>

text \<open>The test vectors of RFC 4648, and the length of an encoding.\<close>

lemma EncodeToString_rfc4648:
  "EncodeToString [] = []" "EncodeToString ''f'' = ''Zg==''" "EncodeToString ''fo'' = ''Zm8=''"
  "EncodeToString ''foo'' = ''Zm9v''" "EncodeToString ''foob'' = ''Zm9vYg==''"
  "EncodeToString ''fooba'' = ''Zm9vYmE=''" "EncodeToString ''foobar'' = ''Zm9vYmFy''"
  by (simp_all add: encodeStd_def)

lemma length_EncodeToString: "length (EncodeToString src) = 4 * ((length src + 2) div 3)"
proof (induction src rule: EncodeToString.induct)
  case (1 a b c src)
  have "(length src + 5) div 3 = Suc ((length src + 2) div 3)" by presburger
  with 1 show ?case by (simp add: Let_def add.commute)
qed (simp_all add: Let_def)

subsection \<open>The request\<close>

lemma asAccess_snd: "snd (asAccess out) = snd out"
  by (simp add: asAccess_def)

lemma asIMS_snd: "snd (asIMS out) = snd out"
  by (simp add: asIMS_def)

lemma one_ok_attempt:
  "attemptsMade \<lparr>authConfig = c, httpClient = ok200 body\<rparr> x w = 1"
proof -
  let ?t = "\<lparr>authConfig = c, httpClient = ok200 body\<rparr>"
  have "\<not> retried (verdict (reply ?t x (calls w + 0)))"
    by (rule not_retried_ok(2) [where rs = "\<lparr>StatusCode = 200\<rparr>"])
       (simp_all add: reply_def ok200_def)
  then have "\<not> Suc 0 < attemptsMade ?t x w" using Exchange_retried by blast
  then show ?thesis using attemptsMade_bounds(1) [of ?t x w] by simp
qed

text \<open>
  Claim C5. Every request that an exchange operation hands to the client, at its first
  attempt and at every retry, is exactly the request of section 4.1: a POST to
  \<open>{IamURL}/oidc/token\<close> with the headers \<open>Authorization: Basic base64(clientID:clientSecret)\<close>
  and \<open>Accept: application/json\<close> and nothing else (\<open>specRequest\<close>), and the form fields of
  the operation, in this order: \<open>grant_type=refresh_token\<close> and \<open>refresh_token\<close>;
  \<open>grant_type=urn:ibm:params:oauth:grant-type:derive\<close>, \<open>response_type=ims_portal\<close> and
  \<open>access_token\<close>; \<open>grant_type=urn:ibm:params:oauth:grant-type:apikey\<close>,
  \<open>response_type=ims_portal\<close> and \<open>apikey\<close>; \<open>grant_type=urn:ibm:params:oauth:grant-type:apikey\<close>
  and \<open>apikey\<close>. At least one request is sent.
\<close>

theorem requests_are_those_of_section_4_1:
  "(\<exists>n. 1 \<le> n \<and>
        sent (snd (ExchangeRefreshTokenForAccessToken t refreshToken w)) =
          sent w @ replicate n
            (specRequest (authConfig t)
               [(''grant_type'', ''refresh_token''), (''refresh_token'', refreshToken)]))
   \<and> (\<exists>n. 1 \<le> n \<and>
        sent (snd (ExchangeAccessTokenForIMSToken t accessToken w)) =
          sent w @ replicate n
            (specRequest (authConfig t)
               [(''grant_type'', ''urn:ibm:params:oauth:grant-type:derive''),
                (''response_type'', ''ims_portal''),
                (''access_token'', AccessToken.Token accessToken)]))
   \<and> (\<exists>n. 1 \<le> n \<and>
        sent (snd (ExchangeIAMAPIKeyForIMSToken t iamAPIKey w)) =
          sent w @ replicate n
            (specRequest (authConfig t)
               [(''grant_type'', ''urn:ibm:params:oauth:grant-type:apikey''),
                (''response_type'', ''ims_portal''),
                (''apikey'', iamAPIKey)]))
   \<and> (\<exists>n. 1 \<le> n \<and>
        sent (snd (ExchangeIAMAPIKeyForAccessToken t iamAPIKey w)) =
          sent w @ replicate n
            (specRequest (authConfig t)
               [(''grant_type'', ''urn:ibm:params:oauth:grant-type:apikey''),
                (''apikey'', iamAPIKey)]))"
proof (intro conjI)
  show "\<exists>n. 1 \<le> n \<and>
        sent (snd (ExchangeRefreshTokenForAccessToken t refreshToken w)) =
          sent w @ replicate n
            (specRequest (authConfig t)
               [(''grant_type'', ''refresh_token''), (''refresh_token'', refreshToken)])"
    using Exchange_sent [of t "RefreshTokenForAccessToken refreshToken" w]
      attemptsMade_bounds(1) [of t "RefreshTokenForAccessToken refreshToken" w]
    by (auto simp: asAccess_snd)
  show "\<exists>n. 1 \<le> n \<and>
        sent (snd (ExchangeAccessTokenForIMSToken t accessToken w)) =
          sent w @ replicate n
            (specRequest (authConfig t)
               [(''grant_type'', ''urn:ibm:params:oauth:grant-type:derive''),
                (''response_type'', ''ims_portal''),
                (''access_token'', AccessToken.Token accessToken)])"
    using Exchange_sent [of t "AccessTokenForIMSToken accessToken" w]
      attemptsMade_bounds(1) [of t "AccessTokenForIMSToken accessToken" w]
    by (auto simp: asIMS_snd)
  show "\<exists>n. 1 \<le> n \<and>
        sent (snd (ExchangeIAMAPIKeyForIMSToken t iamAPIKey w)) =
          sent w @ replicate n
            (specRequest (authConfig t)
               [(''grant_type'', ''urn:ibm:params:oauth:grant-type:apikey''),
                (''response_type'', ''ims_portal''),
                (''apikey'', iamAPIKey)])"
    using Exchange_sent [of t "IAMAPIKeyForIMSToken iamAPIKey" w]
      attemptsMade_bounds(1) [of t "IAMAPIKeyForIMSToken iamAPIKey" w]
    by (auto simp: asIMS_snd)
  show "\<exists>n. 1 \<le> n \<and>
        sent (snd (ExchangeIAMAPIKeyForAccessToken t iamAPIKey w)) =
          sent w @ replicate n
            (specRequest (authConfig t)
               [(''grant_type'', ''urn:ibm:params:oauth:grant-type:apikey''),
                (''apikey'', iamAPIKey)])"
    using Exchange_sent [of t "IAMAPIKeyForAccessToken iamAPIKey" w]
      attemptsMade_bounds(1) [of t "IAMAPIKeyForAccessToken iamAPIKey" w]
    by (auto simp: asAccess_snd)
qed

theorem requests_are_those_of_section_4_1_witness:
  "sent (snd (ExchangeAccessTokenForIMSToken \<lparr>authConfig = cfg0, httpClient = ok200 noBody\<rparr>
                (AccessToken.AccessToken ''at'') emptyWorld)) =
     [\<lparr>httpMethod = ''POST'',
       rawUrl = ''https://iam.cloud.ibm.com/oidc/token'',
       header = [(''Authorization'', ''Basic aWQ6c2VjcmV0''), (''Accept'', ''application/json'')],
       formParams = [(''grant_type'', ''urn:ibm:params:oauth:grant-type:derive''),
                     (''response_type'', ''ims_portal''),
                     (''access_token'', ''at'')]\<rparr>]"
proof -
  let ?t = "\<lparr>authConfig = cfg0, httpClient = ok200 noBody\<rparr>"
  let ?w = "snd (ExchangeAccessTokenForIMSToken ?t (AccessToken.AccessToken ''at'') emptyWorld)"
  have c: "calls ?w = 1"
    using one_ok_attempt [of cfg0 noBody "AccessTokenForIMSToken (AccessToken.AccessToken ''at'')" emptyWorld]
    by (simp add: attemptsMade_def asIMS_snd emptyWorld_def)
  from requests_are_those_of_section_4_1 [of ?t _ emptyWorld "AccessToken.AccessToken ''at''"]
  obtain n where n: "1 \<le> n" "sent ?w = sent emptyWorld @ replicate n
            (specRequest (authConfig ?t)
               [(''grant_type'', ''urn:ibm:params:oauth:grant-type:derive''),
                (''response_type'', ''ims_portal''),
                (''access_token'', AccessToken.Token (AccessToken.AccessToken ''at''))])"
    by blast
  have "length (sent ?w) = calls ?w"
    using Exchange_sent [of ?t "AccessTokenForIMSToken (AccessToken.AccessToken ''at'')" emptyWorld]
    by (simp add: attemptsMade_def asIMS_snd emptyWorld_def)
  then have "n = 1" using n(2) c by (simp add: emptyWorld_def)
  then show ?thesis
    using n(2) by (simp add: emptyWorld_def specRequest_def cfg0_def encodeStd_def)
qed

subsection \<open>One token or one error\<close>

text \<open>
  An operation panics exactly when the last call it made returned neither a response nor
  an error, which the dereference of line 219 does not survive.
\<close>

lemma Exchange_panics_iff:
  "fst (Exchange t x w) = Panic \<longleftrightarrow>
     doErr (lastReply t x w) = None \<and> resp (lastReply t x w) = None"
proof -
  have "surfaced mk d = Panic \<longleftrightarrow> verdict d = Panic" for mk :: "tokenExchangeResponse \<Rightarrow> token" and d
    by (simp add: surfaced_def split: go.split option.split)
  then show ?thesis
    by (simp add: Exchange_result verdict_Panic)
qed

text \<open>
  Claim C7. When the client honours the contract of \<open>net/http\<close>, that a call returns a
  response or an error, every exchange operation returns exactly one of a token, of the
  type of the operation and built of a success body, with a nil error, or an error with
  a nil token.
\<close>

theorem one_token_or_one_error:
  assumes "\<forall>k rq. doErr (httpClient t k rq) \<noteq> None \<or> resp (httpClient t k rq) \<noteq> None"
  shows "(\<exists>v. fst (Exchange t x w) = Return (Some (specToken x v), None)) \<or>
         (\<exists>e. fst (Exchange t x w) = Return (None, Some e))"
proof -
  let ?d = "lastReply t x w"
  have "doErr ?d \<noteq> None \<or> resp ?d \<noteq> None"
    using assms by (simp add: lastReply_def reply_def)
  then have np: "verdict ?d \<noteq> Panic" by (simp add: verdict_Panic)
  then obtain v e where ve: "verdict ?d = Return (v, e)"
    by (cases "verdict ?d") auto
  show ?thesis
  proof (cases e)
    case None
    then have "fst (Exchange t x w) = Return (Some (specToken x (successV ?d)), None)"
      using ve by (simp add: Exchange_result surfaced_def)
    then show ?thesis by blast
  next
    case (Some e')
    then have "fst (Exchange t x w) = Return (None, Some e')"
      using ve by (simp add: Exchange_result surfaced_def)
    then show ?thesis by blast
  qed
qed

theorem one_token_or_one_error_witness:
  "(\<exists>v::tokenExchangeResponse.
      fst (Exchange \<lparr>authConfig = cfg0, httpClient = tcpDown\<rparr> (IAMAPIKeyForAccessToken ''key'') emptyWorld)
           = Return (Some (IsAccessToken (AccessToken.AccessToken (AccessToken v))), None)) \<or>
   (\<exists>e. fst (Exchange \<lparr>authConfig = cfg0, httpClient = tcpDown\<rparr> (IAMAPIKeyForAccessToken ''key'') emptyWorld)
           = Return (None, Some e))"
  using one_token_or_one_error
          [of "\<lparr>authConfig = cfg0, httpClient = tcpDown\<rparr>" "IAMAPIKeyForAccessToken ''key''" emptyWorld]
  by (simp add: tcpDown_def)

subsection \<open>No retry after a success\<close>

text \<open>
  Claim C10. \<open>IsConnectionError\<close> of nil is false; so when an attempt returns a nil error
  the function literal asks the retrier to stop, and the retry loop, at whatever
  iteration and with whatever bound, returns nil right after that attempt, in the world
  that this one attempt left.
\<close>

theorem no_retry_after_success:
  assumes "fst (sendTokenExchangeRequest r w) = Return (v, None)"
  shows "\<not> IsConnectionError None
       \<and> fst (retryFunc (r, iamResp, err) w) = Return (None, True)
       \<and> ErrorRetry_loop er retryFunc i (r, iamResp, err) w =
           (Return None, (fst (snd (sendTokenExchangeRequest r w)), v, None),
            snd (snd (sendTokenExchangeRequest r w)))"
proof -
  have v: "verdict (answer r (calls w)) = Return (v, None)"
    using assms by (simp add: send_eq)
  have 1: "fst (retryFunc (r, iamResp, err) w) = Return (None, True)"
    by (simp add: retryFunc_eq v IsConnectionError_None)
  have 2: "ErrorRetry_loop er retryFunc i (r, iamResp, err) w =
           (Return None, (setHeaders r, v, None), worldAfter r w)"
    by (subst loop_step) (simp add: v IsConnectionError_None)
  show ?thesis
    using 1 2 IsConnectionError_None by (simp add: send_eq)
qed

theorem no_retry_after_success_witness:
  "fst (sendTokenExchangeRequest
          (newTokenExchangeRequest \<lparr>authConfig = cfg0, httpClient = ok200 noBody\<rparr>) emptyWorld)
     = Return (Some noBody, None)
   \<and> fst (ErrorRetry_loop (NewErrorRetrier 40 (3 * Second)) retryFunc 0
            (newTokenExchangeRequest \<lparr>authConfig = cfg0, httpClient = ok200 noBody\<rparr>, None, None)
            emptyWorld) = Return None
   \<and> calls (snd (snd (ErrorRetry_loop (NewErrorRetrier 40 (3 * Second)) retryFunc 0
            (newTokenExchangeRequest \<lparr>authConfig = cfg0, httpClient = ok200 noBody\<rparr>, None, None)
            emptyWorld))) = 1"
proof -
  let ?r = "newTokenExchangeRequest \<lparr>authConfig = cfg0, httpClient = ok200 noBody\<rparr>"
  have "verdict (answer ?r (calls emptyWorld)) = Return (Some noBody, None)"
    using not_retried_ok(1) [of "answer ?r (calls emptyWorld)" "\<lparr>StatusCode = 200\<rparr>"]
    by (simp add: answer_def newTokenExchangeRequest_def ok200_def)
  then have h: "fst (sendTokenExchangeRequest ?r emptyWorld) = Return (Some noBody, None)"
    by (simp add: send_eq)
  from no_retry_after_success [OF h, of None None "NewErrorRetrier 40 (3 * Second)" 0]
  show ?thesis
    using h by (simp add: send_eq worldAfter_calls emptyWorld_def)
qed

subsection \<open>Failures with a message from the service\<close>

lemma verdict_message:
  assumes "doErr d = None" "resp d = Some rs" "StatusCode rs \<noteq> 200" "ErrorMessage (errorV d) \<noteq> []"
  shows "verdict d =
           Return (None, Some
             (if Code (Requirements (errorV d)) = ''SoftLayer_Exception_User_Customer_AccountLocked''
              then ProviderError ''ErrorProviderAccountTemporarilyLocked''
                     ''Infrastructure account is temporarily locked''
                     [''IAM token exchange request failed: '' @ ErrorMessage (errorV d),
                      ErrorDetails (errorV d) @ '' '' @ Code (Requirements (errorV d)) @ '': '' @
                        Error (Requirements (errorV d))]
              else ProviderError ''ErrorFailedTokenExchange''
                     (''IAM token exchange request failed: '' @ ErrorMessage (errorV d))
                     [ErrorDetails (errorV d) @ '' '' @ Code (Requirements (errorV d)) @ '': '' @
                        Error (Requirements (errorV d))]))"
  using assms unfolding verdict_def classify_def
  by (simp add: Let_def NewError_def)

lemma verdict_unexpected:
  assumes "doErr d = None" "resp d = Some rs" "StatusCode rs \<noteq> 200" "ErrorMessage (errorV d) = []"
  shows "verdict d =
           Return (None, Some (ProviderError ''ErrorUnclassified''
                                 ''Unexpected IAM token exchange response'' []))"
  using assms unfolding verdict_def classify_def
  by (simp add: Let_def NewError_def)

lemma classify_unexpected_log:
  assumes "doErr d = None" "resp d = Some rs" "StatusCode rs \<noteq> 200" "ErrorMessage (errorV d) = []"
  shows "logged (snd (classify d w)) =
           logged w @ [(ErrorLevel, ''Unexpected IAM token exchange response'',
                        [ZapInt ''StatusCode'' (StatusCode rs),
                         ZapReflectResponse ''Response'' (Some rs)])]"
  using assms unfolding classify_def Log_def
  by (simp add: Let_def)

lemma send_fst: "fst (sendTokenExchangeRequest r w) = verdict (answer r (calls w))"
  by (simp add: send_eq)

lemma send_world:
  "snd (snd (sendTokenExchangeRequest r w)) =
     snd (classify (answer r (calls w)) (snd (doRequest (setHeaders r) w)))"
  using doRequest_fst [of "setHeaders r" w]
  by (simp add: sendTokenExchangeRequest_def Let_def split_beta answer_def setHeaders_other)




subsection \<open>Unclassified failures\<close>

lemma verdict_kinds:
  assumes "verdict d = Return (v, Some e)"
  shows "\<exists>c msg ws. e = ProviderError c msg ws \<and>
           c \<in> {''ErrorUnclassified'', ''ErrorFailedTokenExchange'',
                 ''ErrorProviderAccountTemporarilyLocked''}"
proof (cases "doErr d")
  case (Some err)
  then show ?thesis using assms by (auto simp: verdict_doErr NewError_def)
next
  case None
  show ?thesis
  proof (cases "resp d")
    case n: None
    then have "verdict d = Panic" using None by (simp add: verdict_Panic)
    then show ?thesis using assms by simp
  next
    case (Some rs)
    show ?thesis
    proof (cases "StatusCode rs = 200")
      case True
      then show ?thesis using not_retried_ok(1) [OF None Some] assms by simp
    next
      case False
      show ?thesis
      proof (cases "ErrorMessage (errorV d) = []")
        case True
        then show ?thesis using verdict_unexpected [OF None Some False] assms by simp
      next
        case nonempty: False
        then show ?thesis using verdict_message [OF None Some False] assms
          by (auto split: if_splits)
      qed
    qed
  qed
qed

lemma verdict_unclassified_iff:
  "(\<exists>v msg ws. verdict d = Return (v, Some (ProviderError ''ErrorUnclassified'' msg ws))) \<longleftrightarrow>
     (doErr d \<noteq> None \<or>
      (\<exists>rs. resp d = Some rs \<and> StatusCode rs \<noteq> 200 \<and> ErrorMessage (errorV d) = []))"
proof (cases "doErr d")
  case (Some err)
  then show ?thesis by (simp add: verdict_doErr NewError_def)
next
  case None
  show ?thesis
  proof (cases "resp d")
    case n: None
    then have "verdict d = Panic" using None by (simp add: verdict_Panic)
    then show ?thesis using None n by simp
  next
    case (Some rs)
    show ?thesis
    proof (cases "StatusCode rs = 200")
      case True
      then show ?thesis using not_retried_ok(1) [OF None Some] None Some by simp
    next
      case False
      show ?thesis
      proof (cases "ErrorMessage (errorV d) = []")
        case True
        then show ?thesis using verdict_unexpected [OF None Some False] None Some False by simp
      next
        case nonempty: False
        then show ?thesis using verdict_message [OF None Some False] None Some
          by simp
      qed
    qed
  qed
qed

lemma answer_always:
  "answer (newTokenExchangeRequest \<lparr>authConfig = c, httpClient = always d\<rparr>) k = d"
  by (simp add: answer_def newTokenExchangeRequest_def always_def)

lemma answer_tcpDown:
  "answer (newTokenExchangeRequest \<lparr>authConfig = c, httpClient = tcpDown\<rparr>) k =
     \<lparr>resp = None,
      doErr = Some (PlainError ''dial tcp 10.0.0.1:443: connect: connection refused''),
      successV = noBody, errorV = noErrorBody\<rparr>"
  by (simp add: answer_def newTokenExchangeRequest_def tcpDown_def)

text \<open>
  Claim C6, as the code has it. One attempt returns an error of kind Unclassified if and
  only if either the call of the client returns an error, with or without a response, or
  it returns no error and a response whose status is not 200 and whose error body has an
  empty \<open>errorMessage\<close>. In the first case the error wraps the client's error. In the
  second the error is a fixed message, and the status code is in the log line that the
  attempt writes last. Every error that an attempt returns is of kind Unclassified,
  FailedTokenExchange or ProviderAccountTemporarilyLocked.
\<close>

theorem unclassified_failure:
  "((\<exists>v msg ws. fst (sendTokenExchangeRequest r w) =
                   Return (v, Some (ProviderError ''ErrorUnclassified'' msg ws))) \<longleftrightarrow>
      (doErr (answer r (calls w)) \<noteq> None \<or>
       (\<exists>rs. resp (answer r (calls w)) = Some rs \<and> StatusCode rs \<noteq> 200 \<and>
             ErrorMessage (errorV (answer r (calls w))) = [])))
   \<and> (\<forall>err. doErr (answer r (calls w)) = Some err \<longrightarrow>
          fst (sendTokenExchangeRequest r w) =
            Return (None, Some (NewError ''ErrorUnclassified''
                                  ''IAM token exchange request failed'' [err])))
   \<and> (\<forall>rs. doErr (answer r (calls w)) = None \<and> resp (answer r (calls w)) = Some rs \<and>
            StatusCode rs \<noteq> 200 \<and> ErrorMessage (errorV (answer r (calls w))) = [] \<longrightarrow>
          fst (sendTokenExchangeRequest r w) =
            Return (None, Some (NewError ''ErrorUnclassified''
                                  ''Unexpected IAM token exchange response'' [])) \<and>
          last (logged (snd (snd (sendTokenExchangeRequest r w)))) =
            (ErrorLevel, ''Unexpected IAM token exchange response'',
             [ZapInt ''StatusCode'' (StatusCode rs), ZapReflectResponse ''Response'' (Some rs)]))
   \<and> (\<forall>v e. fst (sendTokenExchangeRequest r w) = Return (v, Some e) \<longrightarrow>
          (\<exists>c msg ws. e = ProviderError c msg ws \<and>
             c \<in> {''ErrorUnclassified'', ''ErrorFailedTokenExchange'',
                   ''ErrorProviderAccountTemporarilyLocked''}))"
proof (intro conjI allI impI)
  show "(\<exists>v msg ws. fst (sendTokenExchangeRequest r w) =
                   Return (v, Some (ProviderError ''ErrorUnclassified'' msg ws))) \<longleftrightarrow>
      (doErr (answer r (calls w)) \<noteq> None \<or>
       (\<exists>rs. resp (answer r (calls w)) = Some rs \<and> StatusCode rs \<noteq> 200 \<and>
             ErrorMessage (errorV (answer r (calls w))) = []))"
    unfolding send_fst by (rule verdict_unclassified_iff)
next
  fix err assume "doErr (answer r (calls w)) = Some err"
  then show "fst (sendTokenExchangeRequest r w) =
            Return (None, Some (NewError ''ErrorUnclassified''
                                  ''IAM token exchange request failed'' [err]))"
    by (simp add: send_fst verdict_doErr)
next
  fix rs
  assume a: "doErr (answer r (calls w)) = None \<and> resp (answer r (calls w)) = Some rs \<and>
            StatusCode rs \<noteq> 200 \<and> ErrorMessage (errorV (answer r (calls w))) = []"
  then show "fst (sendTokenExchangeRequest r w) =
            Return (None, Some (NewError ''ErrorUnclassified''
                                  ''Unexpected IAM token exchange response'' []))"
    using verdict_unexpected [of "answer r (calls w)" rs] by (simp add: send_fst NewError_def)
  from a show "last (logged (snd (snd (sendTokenExchangeRequest r w)))) =
            (ErrorLevel, ''Unexpected IAM token exchange response'',
             [ZapInt ''StatusCode'' (StatusCode rs), ZapReflectResponse ''Response'' (Some rs)])"
    using classify_unexpected_log [of "answer r (calls w)" rs]
    by (simp add: send_world)
next
  fix v e assume "fst (sendTokenExchangeRequest r w) = Return (v, Some e)"
  then show "\<exists>c msg ws. e = ProviderError c msg ws \<and>
             c \<in> {''ErrorUnclassified'', ''ErrorFailedTokenExchange'',
                   ''ErrorProviderAccountTemporarilyLocked''}"
    unfolding send_fst by (rule verdict_kinds)
qed

theorem unclassified_failure_witness:
  "fst (sendTokenExchangeRequest
          (newTokenExchangeRequest \<lparr>authConfig = cfg0, httpClient = tcpDown\<rparr>) emptyWorld)
     = Return (None, Some (ProviderError ''ErrorUnclassified''
                 ''IAM token exchange request failed''
                 [''dial tcp 10.0.0.1:443: connect: connection refused'']))
   \<and> fst (sendTokenExchangeRequest
          (newTokenExchangeRequest
             \<lparr>authConfig = cfg0, httpClient = always (rejected 500 noErrorBody)\<rparr>) emptyWorld)
     = Return (None, Some (ProviderError ''ErrorUnclassified''
                 ''Unexpected IAM token exchange response'' []))
   \<and> last (logged (snd (snd (sendTokenExchangeRequest
          (newTokenExchangeRequest
             \<lparr>authConfig = cfg0, httpClient = always (rejected 500 noErrorBody)\<rparr>) emptyWorld))))
     = (ErrorLevel, ''Unexpected IAM token exchange response'',
        [ZapInt ''StatusCode'' 500, ZapReflectResponse ''Response'' (Some \<lparr>StatusCode = 500\<rparr>)])"
proof -
  let ?r = "newTokenExchangeRequest \<lparr>authConfig = cfg0, httpClient = tcpDown\<rparr>"
  let ?q = "newTokenExchangeRequest
             \<lparr>authConfig = cfg0, httpClient = always (rejected 500 noErrorBody)\<rparr>"
  from unclassified_failure [of ?r emptyWorld]
  have 1: "fst (sendTokenExchangeRequest ?r emptyWorld)
     = Return (None, Some (ProviderError ''ErrorUnclassified''
                 ''IAM token exchange request failed''
                 [''dial tcp 10.0.0.1:443: connect: connection refused'']))"
    unfolding answer_tcpDown by (simp add: NewError_def)
  from unclassified_failure [of ?q emptyWorld]
  have 2: "fst (sendTokenExchangeRequest ?q emptyWorld)
       = Return (None, Some (ProviderError ''ErrorUnclassified''
                 ''Unexpected IAM token exchange response'' []))
     \<and> last (logged (snd (snd (sendTokenExchangeRequest ?q emptyWorld))))
       = (ErrorLevel, ''Unexpected IAM token exchange response'',
          [ZapInt ''StatusCode'' 500, ZapReflectResponse ''Response'' (Some \<lparr>StatusCode = 500\<rparr>)])"
    unfolding answer_always by (simp add: NewError_def rejected_def noErrorBody_def)
  from 1 2 show ?thesis by simp
qed

text \<open>
  An Unclassified error does not need the response to be absent: a response with status
  200 that comes with an error of the client gives one. And the error of a response
  without a message does not hold the status code: it is the same for 500 and for 404.
\<close>

theorem unclassified_despite_response:
  "fst (sendTokenExchangeRequest
          (newTokenExchangeRequest \<lparr>authConfig = cfg0, httpClient = always undecodable\<rparr>)
          emptyWorld)
     = Return (None, Some (ProviderError ''ErrorUnclassified''
                 ''IAM token exchange request failed'' [''unexpected end of JSON input'']))
   \<and> resp (answer (newTokenExchangeRequest \<lparr>authConfig = cfg0, httpClient = always undecodable\<rparr>)
              (calls emptyWorld))
     = Some \<lparr>StatusCode = 200\<rparr>
   \<and> fst (sendTokenExchangeRequest
          (newTokenExchangeRequest
             \<lparr>authConfig = cfg0, httpClient = always (rejected 500 noErrorBody)\<rparr>) emptyWorld)
     = fst (sendTokenExchangeRequest
          (newTokenExchangeRequest
             \<lparr>authConfig = cfg0, httpClient = always (rejected 404 noErrorBody)\<rparr>) emptyWorld)"
proof -
  have 1: "verdict undecodable = Return (None, Some (ProviderError ''ErrorUnclassified''
                 ''IAM token exchange request failed'' [''unexpected end of JSON input'']))"
    using verdict_doErr [of undecodable "PlainError ''unexpected end of JSON input''"]
    by (simp add: undecodable_def NewError_def)
  have 2: "verdict (rejected st noErrorBody) =
             Return (None, Some (ProviderError ''ErrorUnclassified''
                                   ''Unexpected IAM token exchange response'' []))"
    if "st \<noteq> 200" for st
    using verdict_unexpected [of "rejected st noErrorBody" "\<lparr>StatusCode = st\<rparr>"] that
    by (simp add: rejected_def noErrorBody_def)
  show ?thesis
    by (simp add: send_fst answer_always 1 2) (simp add: undecodable_def)
qed

end
